theory Spec2Isabelle
  imports Complex_Main "HOL-Library.Char_ord" "HOL-Library.List_Lexorder"
    "HOL-Library.Product_Lexorder"
begin

section \<open>Data model\<close>

text \<open>
  A pandas data frame is modelled column-wise: an ordered association list from column
  names to columns, every column a list of cells. A cell is a missing value (NaN, None
  and NaT alike), a number, a string or a calendar date. Numbers are the reals: the
  floating-point rounding of the source is not modelled. A timestamp is a calendar day
  (year, month, day); the rows are daily observations.
\<close>

type_synonym timestamp = "int \<times> nat \<times> nat"

datatype cell = NaN | Num real | Str string | Ts timestamp

type_synonym series = "cell list"

type_synonym frame = "(string \<times> series) list"

datatype error =
    KeyError "string list"
  | DataError
  | TypeError
  | IndexError
  | ValueError string

definition columns :: "frame \<Rightarrow> string list" where
  "columns df = map fst df"

text \<open>\<^verbatim>\<open>df[c]\<close>: a missing column raises KeyError.\<close>

definition getcol :: "frame \<Rightarrow> string \<Rightarrow> error + series" where
  "getcol df c = (case map_of df c of None \<Rightarrow> Inl (KeyError [c]) | Some s \<Rightarrow> Inr s)"

text \<open>\<^verbatim>\<open>df[c] = s\<close>: an existing column is replaced in place, a new one is appended.\<close>

fun setcol :: "frame \<Rightarrow> string \<Rightarrow> series \<Rightarrow> frame" where
  "setcol [] c s = [(c, s)]"
| "setcol ((k, v) # df) c s = (if k = c then (c, s) # df else (k, v) # setcol df c s)"

definition nrows :: "frame \<Rightarrow> nat" where
  "nrows df = (case df of [] \<Rightarrow> 0 | (k, s) # rest \<Rightarrow> length s)"

text \<open>All columns of a data frame have the same number of rows.\<close>

definition frame_ok :: "nat \<Rightarrow> frame \<Rightarrow> bool" where
  "frame_ok n df = list_all (\<lambda>p. length (snd p) = n) df"

text \<open>A statement sequence that stops at the first exception.\<close>

fun for_each :: "('a \<Rightarrow> frame \<Rightarrow> error + frame) \<Rightarrow> 'a list \<Rightarrow> frame \<Rightarrow> error + frame" where
  "for_each f [] df = Inr df"
| "for_each f (x # xs) df =
     (case f x df of Inl e \<Rightarrow> Inl e | Inr df' \<Rightarrow> for_each f xs df')"

text \<open>\<^verbatim>\<open>df[dst] = f(df[src])\<close>\<close>

definition assign_from :: "string \<Rightarrow> string \<Rightarrow> (series \<Rightarrow> series) \<Rightarrow> frame \<Rightarrow> error + frame" where
  "assign_from dst src f df =
     (case getcol df src of Inl e \<Rightarrow> Inl e | Inr s \<Rightarrow> Inr (setcol df dst (f s)))"

text \<open>The column of a result, when there is one.\<close>

definition result_column :: "error + frame \<Rightarrow> string \<Rightarrow> series option" where
  "result_column r c = (case r of Inl e \<Rightarrow> None | Inr df \<Rightarrow> map_of df c)"

definition result_columns :: "error + frame \<Rightarrow> string list option" where
  "result_columns r = (case r of Inl e \<Rightarrow> None | Inr df \<Rightarrow> Some (columns df))"


section \<open>Temporal features (FeatureEngineer.create\_temporal\_features)\<close>

text \<open>
  The constructor has converted the \<open>date\<close> column with \<^verbatim>\<open>pd.to_datetime\<close>, so its
  cells are timestamps or NaT. The \<^verbatim>\<open>.dt\<close> accessors give NaN on NaT.
\<close>

definition days_from_civil :: "timestamp \<Rightarrow> int" where
  "days_from_civil t =
     (case t of (y, m, d) \<Rightarrow>
        let y' = (if m \<le> 2 then y - 1 else y);
            era = y' div 400;
            yoe = y' - era * 400;
            mp = (if 2 < m then int m - 3 else int m + 9);
            doy = (153 * mp + 2) div 5 + int d - 1;
            doe = yoe * 365 + yoe div 4 - yoe div 100 + doy
        in era * 146097 + doe - 719468)"

definition day_of_year :: "timestamp \<Rightarrow> int" where
  "day_of_year t = (case t of (y, m, d) \<Rightarrow> days_from_civil t - days_from_civil (y, 1, 1) + 1)"

text \<open>Monday is 0; day 0 of the epoch (1970-01-01) was a Thursday.\<close>

definition day_of_week :: "timestamp \<Rightarrow> int" where
  "day_of_week t = (days_from_civil t + 3) mod 7"

definition iso_weeks_in_year :: "int \<Rightarrow> int" where
  "iso_weeks_in_year y =
     (let p = (\<lambda>z. (z + z div 4 - z div 100 + z div 400) mod 7)
      in if p y = 4 \<or> p (y - 1) = 3 then 53 else 52)"

definition iso_week :: "timestamp \<Rightarrow> int" where
  "iso_week t =
     (case t of (y, m, d) \<Rightarrow>
        let w = (day_of_year t - (day_of_week t + 1) + 10) div 7
        in if w < 1 then iso_weeks_in_year (y - 1)
           else if iso_weeks_in_year y < w then 1 else w)"

fun dt_month :: "cell \<Rightarrow> cell" where
  "dt_month (Ts (y, m, d)) = Num (real m)"
| "dt_month c = NaN"

fun dt_year :: "cell \<Rightarrow> cell" where
  "dt_year (Ts (y, m, d)) = Num (real_of_int y)"
| "dt_year c = NaN"

fun dt_dayofyear :: "cell \<Rightarrow> cell" where
  "dt_dayofyear (Ts t) = Num (real_of_int (day_of_year t))"
| "dt_dayofyear c = NaN"

fun dt_isoweek :: "cell \<Rightarrow> cell" where
  "dt_isoweek (Ts t) = Num (real_of_int (iso_week t))"
| "dt_isoweek c = NaN"

fun dt_dayofweek :: "cell \<Rightarrow> cell" where
  "dt_dayofweek (Ts t) = Num (real_of_int (day_of_week t))"
| "dt_dayofweek c = NaN"

text \<open>
  \<^verbatim>\<open>pd.cut(x, bins, labels, right=True)\<close>: the label of the first bin \<open>(lo, hi]\<close>
  that holds the value; NaN for a missing value and for a value in no bin.
\<close>

fun cut_bins :: "real list \<Rightarrow> string list \<Rightarrow> real \<Rightarrow> cell" where
  "cut_bins (lo # hi # bs) (l # ls) x =
     (if lo < x \<and> x \<le> hi then Str l else cut_bins (hi # bs) ls x)"
| "cut_bins bs ls x = NaN"

fun pd_cut :: "real list \<Rightarrow> string list \<Rightarrow> cell \<Rightarrow> cell" where
  "pd_cut bs ls (Num x) = cut_bins bs ls x"
| "pd_cut bs ls c = NaN"

definition season_bins :: "real list" where
  "season_bins = [0, 5, 10, 12]"

definition season_labels :: "string list" where
  "season_labels = [''Dry'', ''Rainy'', ''Dry'']"

text \<open>\<^verbatim>\<open>np.sin(2 * np.pi * df[col] / max_val)\<close>, and the same with the cosine.\<close>

fun cyclic :: "(real \<Rightarrow> real) \<Rightarrow> real \<Rightarrow> cell \<Rightarrow> cell" where
  "cyclic f max_val (Num x) = Num (f (2 * pi * x / max_val))"
| "cyclic f max_val c = NaN"

definition cyclic_columns :: "(string \<times> real) list" where
  "cyclic_columns =
     [(''month'', 12), (''day_of_year'', 365), (''week_of_year'', 52), (''day_of_week'', 7)]"

definition cyclic_encode :: "string \<times> real \<Rightarrow> frame \<Rightarrow> error + frame" where
  "cyclic_encode p df =
     (case p of (col, max_val) \<Rightarrow>
        (case assign_from (col @ ''_sin'') col (map (cyclic sin max_val)) df of
           Inl e \<Rightarrow> Inl e
         | Inr df1 \<Rightarrow> assign_from (col @ ''_cos'') col (map (cyclic cos max_val)) df1))"

definition create_temporal_features :: "frame \<Rightarrow> error + frame" where
  "create_temporal_features df =
     (case assign_from ''month'' ''date'' (map dt_month) df of Inl e \<Rightarrow> Inl e | Inr df1 \<Rightarrow>
      case assign_from ''year'' ''date'' (map dt_year) df1 of Inl e \<Rightarrow> Inl e | Inr df2 \<Rightarrow>
      case assign_from ''day_of_year'' ''date'' (map dt_dayofyear) df2 of Inl e \<Rightarrow> Inl e | Inr df3 \<Rightarrow>
      case assign_from ''week_of_year'' ''date'' (map dt_isoweek) df3 of Inl e \<Rightarrow> Inl e | Inr df4 \<Rightarrow>
      case assign_from ''day_of_week'' ''date'' (map dt_dayofweek) df4 of Inl e \<Rightarrow> Inl e | Inr df5 \<Rightarrow>
      case assign_from ''season'' ''month'' (map (pd_cut season_bins season_labels)) df5 of
        Inl e \<Rightarrow> Inl e
      | Inr df6 \<Rightarrow> for_each cyclic_encode cyclic_columns df6)"

section \<open>pandas operations used by the weather features\<close>

text \<open>Decimal digits of a natural number, as an f-string prints it.\<close>

definition digit_char :: "nat \<Rightarrow> char" where
  "digit_char d = ''0123456789'' ! d"

function str_nat :: "nat \<Rightarrow> string" where
  "str_nat n = (if n < 10 then [digit_char n] else str_nat (n div 10) @ [digit_char (n mod 10)])"
  by pat_completeness auto
termination
  by (relation "measure id") auto

declare str_nat.simps [simp del]

text \<open>
  A column can be aggregated numerically when it holds numbers and missing values only;
  on a column holding a string or a date the rolling aggregation raises DataError and a
  comparison with a number raises TypeError.
\<close>

fun numeric_cell :: "cell \<Rightarrow> bool" where
  "numeric_cell NaN = True"
| "numeric_cell (Num r) = True"
| "numeric_cell c = False"

definition numeric :: "series \<Rightarrow> bool" where
  "numeric xs = list_all numeric_cell xs"

text \<open>The observations of a window: its non-missing numbers.\<close>

fun nums :: "series \<Rightarrow> real list" where
  "nums [] = []"
| "nums (Num r # xs) = r # nums xs"
| "nums (c # xs) = nums xs"

definition mean :: "real list \<Rightarrow> real" where
  "mean rs = sum_list rs / real (length rs)"

text \<open>The sample variance (one delta degree of freedom, the default of pandas).\<close>

definition var :: "real list \<Rightarrow> real" where
  "var rs = sum_list (map (\<lambda>r. (r - mean rs)\<^sup>2) rs) / (real (length rs) - 1)"

text \<open>
  The aggregations of \<^verbatim>\<open>rolling(window, min_periods)\<close>: a window with fewer
  observations than \<open>min_periods\<close> gives NaN; the mean needs one observation, the
  standard deviation more observations than its degree of freedom, that is two.
\<close>

definition roll_mean :: "nat \<Rightarrow> series \<Rightarrow> cell" where
  "roll_mean min_periods win =
     (let obs = nums win
      in if min_periods \<le> length obs \<and> 0 < length obs then Num (mean obs) else NaN)"

definition roll_std :: "nat \<Rightarrow> series \<Rightarrow> cell" where
  "roll_std min_periods win =
     (let obs = nums win
      in if min_periods \<le> length obs \<and> 1 < length obs then Num (sqrt (var obs)) else NaN)"

text \<open>The trailing window of size \<open>w\<close> that ends at position \<open>k\<close>.\<close>

definition window_at :: "nat \<Rightarrow> series \<Rightarrow> nat \<Rightarrow> series" where
  "window_at w xs k = drop (Suc k - w) (take (Suc k) xs)"

definition rolling :: "nat \<Rightarrow> (series \<Rightarrow> cell) \<Rightarrow> series \<Rightarrow> series" where
  "rolling w agg xs = map (\<lambda>k. agg (window_at w xs k)) [0..<length xs]"

text \<open>
  \<^verbatim>\<open>groupby(key)\<close>: the groups are the distinct non-missing keys, in sorted order
  (numbers before strings before dates); a row with a missing key is in no group.
\<close>

fun cell_key :: "cell \<Rightarrow> nat \<times> real \<times> string \<times> timestamp" where
  "cell_key NaN = (0, 0, [], (0, 0, 0))"
| "cell_key (Num r) = (1, r, [], (0, 0, 0))"
| "cell_key (Str s) = (2, 0, s, (0, 0, 0))"
| "cell_key (Ts t) = (3, 0, [], t)"

definition group_keys :: "series \<Rightarrow> cell list" where
  "group_keys ks = sort_key cell_key (remdups (filter (\<lambda>k. k \<noteq> NaN) ks))"

definition group_indices :: "series \<Rightarrow> cell \<Rightarrow> nat list" where
  "group_indices ks k = filter (\<lambda>i. ks ! i = k) [0..<length ks]"

definition gather :: "series \<Rightarrow> nat list \<Rightarrow> series" where
  "gather xs idx = map (nth xs) idx"

fun scatter :: "series \<Rightarrow> nat list \<Rightarrow> series \<Rightarrow> series" where
  "scatter out (i # idx) (y # ys) = scatter (out[i := y]) idx ys"
| "scatter out idx ys = out"

text \<open>
  \<^verbatim>\<open>groupby(key)[col].transform(f)\<close>: \<open>f\<close> is applied to the rows of each group, in
  their order, and its results are written back at the rows of the group. The rows of
  no group stay missing.
\<close>

definition transform_step :: "series \<Rightarrow> (series \<Rightarrow> series) \<Rightarrow> series \<Rightarrow> series \<Rightarrow> cell \<Rightarrow> series" where
  "transform_step ks f xs out k =
     scatter out (group_indices ks k) (f (gather xs (group_indices ks k)))"

definition groupby_transform :: "series \<Rightarrow> (series \<Rightarrow> series) \<Rightarrow> series \<Rightarrow> series" where
  "groupby_transform ks f xs =
     foldl (transform_step ks f xs) (replicate (length xs) NaN) (group_keys ks)"

definition shift :: "nat \<Rightarrow> series \<Rightarrow> series" where
  "shift n xs = replicate (min n (length xs)) NaN @ take (length xs - n) xs"

definition fillna :: "cell \<Rightarrow> series \<Rightarrow> series" where
  "fillna v xs = map (\<lambda>c. if c = NaN then v else c) xs"

fun ffill_from :: "cell \<Rightarrow> series \<Rightarrow> series" where
  "ffill_from prev [] = []"
| "ffill_from prev (x # xs) =
     (if x = NaN then prev # ffill_from prev xs else x # ffill_from x xs)"

definition ffill :: "series \<Rightarrow> series" where
  "ffill xs = ffill_from NaN xs"

definition bfill :: "series \<Rightarrow> series" where
  "bfill xs = rev (ffill (rev xs))"

text \<open>Comparison of a column with a number: a missing value compares false.\<close>

fun test_cell :: "(real \<Rightarrow> bool) \<Rightarrow> cell \<Rightarrow> bool" where
  "test_cell p (Num r) = p r"
| "test_cell p c = False"

definition compare :: "(real \<Rightarrow> bool) \<Rightarrow> series \<Rightarrow> error + bool list" where
  "compare p xs = (if numeric xs then Inr (map (test_cell p) xs) else Inl TypeError)"

definition column_test :: "frame \<Rightarrow> string \<Rightarrow> (real \<Rightarrow> bool) \<Rightarrow> error + bool list" where
  "column_test df c p = (case getcol df c of Inl e \<Rightarrow> Inl e | Inr s \<Rightarrow> compare p s)"

definition both :: "bool list \<Rightarrow> bool list \<Rightarrow> bool list" where
  "both a b = map (\<lambda>p. fst p \<and> snd p) (zip a b)"

definition astype_int :: "bool list \<Rightarrow> series" where
  "astype_int bs = map (\<lambda>b. Num (if b then 1 else 0)) bs"

text \<open>
  \<^verbatim>\<open>dropna(subset=cols)\<close>: KeyError with the labels that are not columns; otherwise
  the rows with a missing value in one of the columns are removed.
\<close>

definition select_rows :: "bool list \<Rightarrow> series \<Rightarrow> series" where
  "select_rows keep s = map snd (filter fst (zip keep s))"

definition complete_row :: "frame \<Rightarrow> string list \<Rightarrow> nat \<Rightarrow> bool" where
  "complete_row df labels i =
     list_all (\<lambda>c. case map_of df c of None \<Rightarrow> True | Some s \<Rightarrow> s ! i \<noteq> NaN) labels"

definition row_mask :: "frame \<Rightarrow> string list \<Rightarrow> bool list" where
  "row_mask df labels = map (complete_row df labels) [0..<nrows df]"

definition dropna_subset :: "string list \<Rightarrow> frame \<Rightarrow> error + frame" where
  "dropna_subset labels df =
     (case filter (\<lambda>c. c \<notin> set (columns df)) labels of
        [] \<Rightarrow> Inr (map (\<lambda>p. (fst p, select_rows (row_mask df labels) (snd p))) df)
      | c # cs \<Rightarrow> Inl (KeyError (c # cs)))"

text \<open>\<^verbatim>\<open>df[cols] = f(df[cols])\<close>, column by column.\<close>

definition fill_columns :: "(series \<Rightarrow> series) \<Rightarrow> string list \<Rightarrow> frame \<Rightarrow> frame" where
  "fill_columns f cs df = map (\<lambda>p. if fst p \<in> set cs then (fst p, f (snd p)) else p) df"

section \<open>Weather features (FeatureEngineer.create\_weather\_features)\<close>

definition weather_cols :: "string list" where
  "weather_cols =
     [''temperature_2m_max'', ''temperature_2m_min'', ''precipitation_sum'',
      ''wind_speed_10m_max'']"

definition windows :: "nat list" where
  "windows = [3, 7, 14]"

definition mean_name :: "string \<Rightarrow> nat \<Rightarrow> string" where
  "mean_name col w = col @ ''_'' @ str_nat w @ ''d_mean''"

definition std_name :: "string \<Rightarrow> nat \<Rightarrow> string" where
  "std_name col w = col @ ''_'' @ str_nat w @ ''d_std''"

text \<open>
  \<^verbatim>\<open>self.df.groupby('city')[col].transform(lambda x: x.rolling(window, min_periods=1).agg())\<close>
\<close>

definition grouped_rolling :: "frame \<Rightarrow> string \<Rightarrow> nat \<Rightarrow> (series \<Rightarrow> cell) \<Rightarrow> error + series" where
  "grouped_rolling df col w agg =
     (case getcol df ''city'' of Inl e \<Rightarrow> Inl e | Inr ks \<Rightarrow>
     (case getcol df col of Inl e \<Rightarrow> Inl e | Inr xs \<Rightarrow>
        if numeric xs then Inr (groupby_transform ks (rolling w agg) xs) else Inl DataError))"

definition add_rolling :: "string \<Rightarrow> nat \<Rightarrow> frame \<Rightarrow> error + frame" where
  "add_rolling col w df =
     (case grouped_rolling df col w (roll_mean 1) of Inl e \<Rightarrow> Inl e | Inr m \<Rightarrow>
     (case grouped_rolling (setcol df (mean_name col w) m) col w (roll_std 1) of
        Inl e \<Rightarrow> Inl e
      | Inr s \<Rightarrow> Inr (setcol (setcol df (mean_name col w) m) (std_name col w) s)))"

definition rolling_window_statistics :: "frame \<Rightarrow> error + frame" where
  "rolling_window_statistics df =
     for_each (\<lambda>col. for_each (add_rolling col) windows) weather_cols df"

definition disease_indicators :: "frame \<Rightarrow> error + frame" where
  "disease_indicators df =
     (case column_test df ''temperature_2m_max'' (\<lambda>r. 25 \<le> r) of Inl e \<Rightarrow> Inl e | Inr a \<Rightarrow>
     (case column_test df ''temperature_2m_max'' (\<lambda>r. r \<le> 35) of Inl e \<Rightarrow> Inl e | Inr b \<Rightarrow>
      let df1 = setcol df ''optimal_mosquito_temp'' (astype_int (both a b)) in
     (case column_test df1 ''precipitation_sum'' (\<lambda>r. 0 < r) of Inl e \<Rightarrow> Inl e | Inr c \<Rightarrow>
     (case column_test df1 ''temperature_2m_min'' (\<lambda>r. 20 < r) of Inl e \<Rightarrow> Inl e | Inr d \<Rightarrow>
        Inr (setcol df1 ''breeding_conditions'' (astype_int (both c d)))))))"

definition lag_days :: "nat list" where
  "lag_days = [3, 7, 14]"

definition lag_name :: "nat \<Rightarrow> string" where
  "lag_name lag = ''breeding_conditions_lag_'' @ str_nat lag"

definition add_lag :: "nat \<Rightarrow> frame \<Rightarrow> error + frame" where
  "add_lag lag df =
     (case getcol df ''city'' of Inl e \<Rightarrow> Inl e | Inr ks \<Rightarrow>
     (case getcol df ''breeding_conditions'' of Inl e \<Rightarrow> Inl e | Inr bc \<Rightarrow>
        Inr (setcol df (lag_name lag) (fillna (Num 0) (groupby_transform ks (shift lag) bc)))))"

definition lag_features :: "frame \<Rightarrow> error + frame" where
  "lag_features df = for_each add_lag lag_days df"

text \<open>The features as they stand before the missing-value repair.\<close>

definition engineered_features :: "frame \<Rightarrow> error + frame" where
  "engineered_features df =
     (case rolling_window_statistics df of Inl e \<Rightarrow> Inl e | Inr df1 \<Rightarrow>
     (case disease_indicators df1 of Inl e \<Rightarrow> Inl e | Inr df2 \<Rightarrow> lag_features df2))"

definition exclude_columns :: "string list" where
  "exclude_columns =
     [''latitude'', ''longitude'', ''country'', ''country_id'', ''status'', ''occurrence_id'',
      ''vector'', ''source_type'', ''location_type'', ''city'', ''date'']"

definition all_weather_columns :: "frame \<Rightarrow> string list" where
  "all_weather_columns df = filter (\<lambda>c. c \<notin> set exclude_columns) (columns df)"

definition repair_missing :: "frame \<Rightarrow> error + frame" where
  "repair_missing df =
     (let cs = all_weather_columns df;
          df1 = fill_columns ffill cs df;
          df2 = fill_columns bfill cs df1
      in dropna_subset exclude_columns df2)"

definition create_weather_features :: "frame \<Rightarrow> error + frame" where
  "create_weather_features df =
     (case engineered_features df of Inl e \<Rightarrow> Inl e | Inr mid \<Rightarrow> repair_missing mid)"

text \<open>The names of the columns that the weather feature builder writes.\<close>

definition rolling_columns :: "string list" where
  "rolling_columns =
     concat (map (\<lambda>p. [mean_name (fst p) (snd p), std_name (fst p) (snd p)])
       (List.product weather_cols windows))"

definition derived_columns :: "string list" where
  "derived_columns =
     rolling_columns @ [''optimal_mosquito_temp'', ''breeding_conditions''] @ map lag_name lag_days"

section \<open>Aggregation by date and city (DengueProphetForecaster.prepare\_data)\<close>

text \<open>
  \<^verbatim>\<open>groupby(['date', 'city'])\<close>: the groups are the distinct pairs of non-missing
  keys, in sorted order; a row with a missing date or city is in no group.
\<close>

definition pair_keys :: "series \<Rightarrow> series \<Rightarrow> (cell \<times> cell) list" where
  "pair_keys ds cs =
     sort_key (\<lambda>k. (cell_key (fst k), cell_key (snd k)))
       (remdups (filter (\<lambda>k. fst k \<noteq> NaN \<and> snd k \<noteq> NaN) (zip ds cs)))"

definition pair_indices :: "series \<Rightarrow> series \<Rightarrow> cell \<times> cell \<Rightarrow> nat list" where
  "pair_indices ds cs k = filter (\<lambda>i. ds ! i = fst k \<and> cs ! i = snd k) [0..<length ds]"

text \<open>
  The aggregations \<^verbatim>\<open>'sum'\<close> and \<^verbatim>\<open>'first'\<close> of a group skip missing values:
  the sum of no value is 0, the first of no value is missing.
\<close>

definition agg_sum :: "series \<Rightarrow> cell" where
  "agg_sum xs = Num (sum_list (nums xs))"

definition agg_first :: "series \<Rightarrow> cell" where
  "agg_first xs = (case filter (\<lambda>c. c \<noteq> NaN) xs of [] \<Rightarrow> NaN | x # rest \<Rightarrow> x)"

text \<open>
  \<^verbatim>\<open>self.df.groupby(['date', 'city']).agg({target: 'sum', **{col: 'first' ...}}).reset_index()\<close>.
  The target is a numeric column (a 0/1 flag in the source); on a target that holds a
  string or a date the model reports TypeError.
\<close>

definition aggregate :: "frame \<Rightarrow> string \<Rightarrow> error + frame" where
  "aggregate df target =
     (case getcol df ''date'' of Inl e \<Rightarrow> Inl e | Inr ds \<Rightarrow>
     (case getcol df ''city'' of Inl e \<Rightarrow> Inl e | Inr cs \<Rightarrow>
     (case getcol df target of Inl e \<Rightarrow> Inl e | Inr ts \<Rightarrow>
        if \<not> numeric ts then Inl TypeError
        else Inr ([(''date'', map fst (pair_keys ds cs)),
                   (''city'', map snd (pair_keys ds cs)),
                   (target, map (\<lambda>k. agg_sum (gather ts (pair_indices ds cs k))) (pair_keys ds cs))] @
                  map (\<lambda>p. (fst p,
                         map (\<lambda>k. agg_first (gather (snd p) (pair_indices ds cs k)))
                           (pair_keys ds cs)))
                    (filter (\<lambda>p. fst p \<notin> {''date'', ''city'', target}) df)))))"

definition rename_columns :: "(string \<Rightarrow> string) \<Rightarrow> frame \<Rightarrow> frame" where
  "rename_columns f df = map (\<lambda>p. (f (fst p), snd p)) df"

definition take_rows :: "nat list \<Rightarrow> frame \<Rightarrow> frame" where
  "take_rows idx df = map (\<lambda>p. (fst p, gather (snd p) idx)) df"

text \<open>
  The dictionary \<open>prophet_data\<close>, as the list of its items in insertion order: one
  series for each city of the aggregated data, in sorted order of the cities.
\<close>

definition prepare_data :: "frame \<Rightarrow> string \<Rightarrow> error + (cell \<times> frame) list" where
  "prepare_data df target =
     (case aggregate df target of Inl e \<Rightarrow> Inl e | Inr aggregated_data \<Rightarrow>
     (case getcol aggregated_data ''city'' of Inl e \<Rightarrow> Inl e | Inr cs \<Rightarrow>
        Inr (map (\<lambda>city. (city,
                 rename_columns (\<lambda>c. if c = target then ''y'' else if c = ''date'' then ''ds'' else c)
                   (take_rows (group_indices cs city) aggregated_data)))
              (group_keys cs))))"

section \<open>Per-city forecasts (train\_prophet\_model, generate\_forecast\_dataframe)\<close>

text \<open>
  The forecasting engine (Prophet) is outside the program: it is a parameter, with the
  three operations the program calls. \<open>fit\<close> receives the registered regressors and
  the history; \<open>fit\<close> and \<open>predict\<close> may raise.
\<close>

record 'm engine =
  fit :: "string list \<Rightarrow> frame \<Rightarrow> error + 'm"
  make_future_dataframe :: "'m \<Rightarrow> nat \<Rightarrow> frame"
  predict :: "'m \<Rightarrow> frame \<Rightarrow> error + frame"

definition default_regressors :: "string list" where
  "default_regressors = [''temperature_2m_max'', ''precipitation_sum'', ''wind_speed_10m_max'']"

text \<open>\<^verbatim>\<open>s.iloc[-1]\<close>\<close>

definition iloc_last :: "series \<Rightarrow> error + cell" where
  "iloc_last s = (if s = [] then Inl IndexError else Inr (last s))"

text \<open>
  \<^verbatim>\<open>if regressor in prophet_df.columns: future[regressor] = prophet_df[regressor].iloc[-1]\<close>:
  the scalar is broadcast to every row of \<open>future\<close>.
\<close>

definition carry_forward :: "frame \<Rightarrow> string \<Rightarrow> frame \<Rightarrow> error + frame" where
  "carry_forward prophet_df regressor future =
     (if regressor \<in> set (columns prophet_df)
      then (case getcol prophet_df regressor of Inl e \<Rightarrow> Inl e | Inr s \<Rightarrow>
           (case iloc_last s of Inl e \<Rightarrow> Inl e | Inr v \<Rightarrow>
              Inr (setcol future regressor (replicate (nrows future) v))))
      else Inr future)"

text \<open>The parameter \<open>add_regressors\<close> is not used by the source.\<close>

definition train_prophet_model ::
  "'m engine \<Rightarrow> frame \<Rightarrow> nat \<Rightarrow> bool \<Rightarrow> string list option \<Rightarrow> error + ('m \<times> frame)" where
  "train_prophet_model eng prophet_df forecast_periods add_regressors regressors =
     (let regs = (case regressors of None \<Rightarrow> default_regressors | Some rs \<Rightarrow> rs) in
      case fit eng (filter (\<lambda>r. r \<in> set (columns prophet_df)) regs) prophet_df of
        Inl e \<Rightarrow> Inl e
      | Inr model \<Rightarrow>
         (case for_each (carry_forward prophet_df) regs
                 (make_future_dataframe eng model forecast_periods) of
            Inl e \<Rightarrow> Inl e
          | Inr future \<Rightarrow>
             (case predict eng model future of
                Inl e \<Rightarrow> Inl e
              | Inr forecast \<Rightarrow> Inr (model, forecast))))"

text \<open>\<^verbatim>\<open>df[[c1, ..., cn]]\<close>: KeyError with the labels that are not columns.\<close>

definition select_columns :: "string list \<Rightarrow> frame \<Rightarrow> error + frame" where
  "select_columns cs df =
     (case filter (\<lambda>c. c \<notin> set (columns df)) cs of
        [] \<Rightarrow> Inr (concat (map (\<lambda>c. case map_of df c of None \<Rightarrow> [] | Some s \<Rightarrow> [(c, s)]) cs))
      | c # rest \<Rightarrow> Inl (KeyError (c # rest)))"

text \<open>The body of the loop over the cities.\<close>

definition city_forecast :: "'m engine \<Rightarrow> nat \<Rightarrow> bool \<Rightarrow> cell \<times> frame \<Rightarrow> error + frame" where
  "city_forecast eng forecast_periods add_regressors item =
     (case train_prophet_model eng (snd item) forecast_periods add_regressors None of
        Inl e \<Rightarrow> Inl e
      | Inr trained \<Rightarrow>
         (case select_columns [''ds'', ''yhat'', ''yhat_lower'', ''yhat_upper''] (snd trained) of
            Inl e \<Rightarrow> Inl e
          | Inr forecast_df \<Rightarrow>
              Inr (rename_columns
                     (\<lambda>c. if c = ''ds'' then ''date''
                          else if c = ''yhat'' then ''forecasted_arbovirus_cases'' else c)
                     (setcol forecast_df ''city'' (replicate (nrows forecast_df) (fst item))))))"

fun forecast_cities ::
  "'m engine \<Rightarrow> nat \<Rightarrow> bool \<Rightarrow> (cell \<times> frame) list \<Rightarrow> error + frame list" where
  "forecast_cities eng forecast_periods add_regressors [] = Inr []"
| "forecast_cities eng forecast_periods add_regressors (item # items) =
     (case city_forecast eng forecast_periods add_regressors item of
        Inl e \<Rightarrow> Inl e
      | Inr forecast_df \<Rightarrow>
         (case forecast_cities eng forecast_periods add_regressors items of
            Inl e \<Rightarrow> Inl e
          | Inr all_forecasts \<Rightarrow> Inr (forecast_df # all_forecasts)))"

text \<open>
  \<^verbatim>\<open>pd.concat(frames, ignore_index=True)\<close>: ValueError on no frame; otherwise the rows
  of the frames one after the other, over the union of their columns in order of first
  appearance, a frame without a column contributing missing values.
\<close>

definition column_or_missing :: "frame \<Rightarrow> string \<Rightarrow> series" where
  "column_or_missing df c =
     (case map_of df c of None \<Rightarrow> replicate (nrows df) NaN | Some s \<Rightarrow> s)"

definition pd_concat :: "frame list \<Rightarrow> error + frame" where
  "pd_concat fs =
     (if fs = [] then Inl (ValueError ''No objects to concatenate'')
      else Inr (map (\<lambda>c. (c, concat (map (\<lambda>f. column_or_missing f c) fs)))
                  (rev (remdups (rev (concat (map columns fs)))))))"

definition generate_forecast_dataframe ::
  "'m engine \<Rightarrow> frame \<Rightarrow> nat \<Rightarrow> bool \<Rightarrow> error + frame" where
  "generate_forecast_dataframe eng df forecast_periods add_regressors =
     (case prepare_data df ''arbovirus_bool'' of
        Inl e \<Rightarrow> Inl e
      | Inr prophet_data \<Rightarrow>
         (case forecast_cities eng forecast_periods add_regressors prophet_data of
            Inl e \<Rightarrow> Inl e
          | Inr all_forecasts \<Rightarrow> pd_concat all_forecasts))"

text \<open>The columns of a per-city forecast after the selection, the tagging and the renaming.\<close>

definition forecast_columns :: "string list" where
  "forecast_columns =
     [''date'', ''forecasted_arbovirus_cases'', ''yhat_lower'', ''yhat_upper'', ''city'']"

section \<open>A stand-in engine for the examples\<close>

text \<open>
  A small engine with the interface of the real one: like Prophet it refuses a history
  with fewer than two observed targets, its future frame holds the dates of the
  history followed by the next \<open>periods\<close> days, and it predicts one row for each row
  of the future frame: the mean of the history, with a band of one around it. The model
  it fits is the history itself.
\<close>

definition days_in_month :: "int \<Rightarrow> nat \<Rightarrow> nat" where
  "days_in_month y m =
     (if m = 2 then (if y mod 4 = 0 \<and> (y mod 100 \<noteq> 0 \<or> y mod 400 = 0) then 29 else 28)
      else if m \<in> {4, 6, 9, 11} then 30 else 31)"

definition next_day :: "timestamp \<Rightarrow> timestamp" where
  "next_day t =
     (case t of (y, m, d) \<Rightarrow>
        if d < days_in_month y m then (y, m, d + 1)
        else if m < 12 then (y, m + 1, 1) else (y + 1, 1, 1))"

fun days_after :: "nat \<Rightarrow> cell \<Rightarrow> series" where
  "days_after 0 c = []"
| "days_after (Suc k) (Ts t) = Ts (next_day t) # days_after k (Ts (next_day t))"
| "days_after (Suc k) c = NaN # days_after k c"

definition naive_fit :: "string list \<Rightarrow> frame \<Rightarrow> error + frame" where
  "naive_fit regs history =
     (case getcol history ''y'' of
        Inl e \<Rightarrow> Inl e
      | Inr ys \<Rightarrow>
          if length (nums ys) < 2 then Inl (ValueError ''Dataframe has less than 2 non-NaN rows.'')
          else Inr history)"

definition naive_future :: "frame \<Rightarrow> nat \<Rightarrow> frame" where
  "naive_future history periods =
     (case map_of history ''ds'' of
        None \<Rightarrow> []
      | Some ds \<Rightarrow> [(''ds'', ds @ (if ds = [] then [] else days_after periods (last ds)))])"

definition naive_predict :: "frame \<Rightarrow> frame \<Rightarrow> error + frame" where
  "naive_predict history future =
     (case getcol future ''ds'' of
        Inl e \<Rightarrow> Inl e
      | Inr ds \<Rightarrow>
         (case getcol history ''y'' of
            Inl e \<Rightarrow> Inl e
          | Inr ys \<Rightarrow>
              Inr [(''ds'', ds),
                   (''trend'', replicate (length ds) (Num (mean (nums ys)))),
                   (''yhat_lower'', replicate (length ds) (Num (mean (nums ys) - 1))),
                   (''yhat_upper'', replicate (length ds) (Num (mean (nums ys) + 1))),
                   (''yhat'', replicate (length ds) (Num (mean (nums ys))))]))"

definition naive_engine :: "frame engine" where
  "naive_engine =
     \<lparr>fit = naive_fit, make_future_dataframe = naive_future, predict = naive_predict\<rparr>"

section \<open>Example data\<close>

text \<open>Five records of two cities; city A has the rows 0, 1, 3 and 4.\<close>

definition example_frame :: frame where
  "example_frame =
     [(''date'', [Ts (2024, 1, 1), Ts (2024, 1, 2), Ts (2024, 1, 2), Ts (2024, 1, 3), Ts (2024, 1, 4)]),
      (''city'', [Str ''A'', Str ''A'', Str ''B'', Str ''A'', Str ''A'']),
      (''latitude'', [Num 1, Num 1, Num 2, Num 1, Num 1]),
      (''longitude'', [Num 3, Num 3, Num 4, Num 3, Num 3]),
      (''country'', [Str ''X'', Str ''X'', Str ''X'', Str ''X'', Str ''X'']),
      (''country_id'', [Num 7, Num 7, Num 7, Num 7, Num 7]),
      (''status'', [Str ''ok'', Str ''ok'', Str ''ok'', Str ''ok'', Str ''ok'']),
      (''occurrence_id'', [Num 1, Num 2, Num 3, Num 4, Num 5]),
      (''vector'', [Str ''v'', Str ''v'', Str ''v'', Str ''v'', Str ''v'']),
      (''source_type'', [Str ''s'', Str ''s'', Str ''s'', Str ''s'', Str ''s'']),
      (''location_type'', [Str ''l'', Str ''l'', Str ''l'', Str ''l'', Str ''l'']),
      (''temperature_2m_max'', [Num 30, Num 31, Num 20, Num 36, Num 25]),
      (''temperature_2m_min'', [Num 21, Num 22, Num 10, Num 25, Num 19]),
      (''precipitation_sum'', [Num 5, Num 0, Num 1, NaN, Num 2]),
      (''wind_speed_10m_max'', [Num 3, Num 4, Num 5, Num 6, Num 7]),
      (''arbovirus_bool'', [Num 1, NaN, Num 0, NaN, Num 1])]"

text \<open>Two records, one for each of two cities.\<close>

definition example_single_rows :: frame where
  "example_single_rows =
     [(''date'', [Ts (2024, 1, 1), Ts (2024, 1, 1)]),
      (''city'', [Str ''A'', Str ''B'']),
      (''latitude'', [Num 1, Num 2]),
      (''longitude'', [Num 3, Num 4]),
      (''country'', [Str ''X'', Str ''X'']),
      (''country_id'', [Num 7, Num 7]),
      (''status'', [Str ''ok'', Str ''ok'']),
      (''occurrence_id'', [Num 1, Num 2]),
      (''vector'', [Str ''v'', Str ''v'']),
      (''source_type'', [Str ''s'', Str ''s'']),
      (''location_type'', [Str ''l'', Str ''l'']),
      (''temperature_2m_max'', [Num 30, Num 20]),
      (''temperature_2m_min'', [Num 21, Num 10]),
      (''precipitation_sum'', [Num 5, Num 1]),
      (''wind_speed_10m_max'', [Num 3, Num 5]),
      (''arbovirus_bool'', [Num 1, Num 0])]"

text \<open>The same two records without the column \<open>wind_speed_10m_max\<close>.\<close>

definition example_no_wind :: frame where
  "example_no_wind =
     [(''date'', [Ts (2024, 1, 1), Ts (2024, 1, 1)]),
      (''city'', [Str ''A'', Str ''B'']),
      (''latitude'', [Num 1, Num 2]),
      (''longitude'', [Num 3, Num 4]),
      (''country'', [Str ''X'', Str ''X'']),
      (''country_id'', [Num 7, Num 7]),
      (''status'', [Str ''ok'', Str ''ok'']),
      (''occurrence_id'', [Num 1, Num 2]),
      (''vector'', [Str ''v'', Str ''v'']),
      (''source_type'', [Str ''s'', Str ''s'']),
      (''location_type'', [Str ''l'', Str ''l'']),
      (''temperature_2m_max'', [Num 30, Num 20]),
      (''temperature_2m_min'', [Num 21, Num 10]),
      (''precipitation_sum'', [Num 5, Num 1]),
      (''arbovirus_bool'', [Num 1, Num 0])]"


text \<open>The records of city A alone, and a single record.\<close>

definition example_city_a :: frame where
  "example_city_a =
     [(''date'', [Ts (2024, 2, 28), Ts (2024, 2, 29), Ts (2024, 2, 28)]),
      (''city'', [Str ''A'', Str ''A'', Str ''A'']),
      (''arbovirus_bool'', [Num 1, Num 0, Num 1]),
      (''temperature_2m_max'', [NaN, Num 31, Num 30])]"

definition example_one_record :: frame where
  "example_one_record =
     [(''date'', [Ts (2024, 2, 28)]),
      (''city'', [Str ''B'']),
      (''arbovirus_bool'', [Num 1]),
      (''temperature_2m_max'', [Num 25])]"

section \<open>Basic facts about frames\<close>

lemma getcol_setcol [simp]:
  "getcol (setcol df c s) c' = (if c' = c then Inr s else getcol df c')"
  by (induction df c s rule: setcol.induct) (auto simp: getcol_def)

section \<open>The season label\<close>

lemma cut_season:
  "1 \<le> m \<Longrightarrow> m \<le> 12 \<Longrightarrow>
   pd_cut season_bins season_labels (Num (real m)) =
     Str (if m \<le> 5 then ''Dry'' else if m \<le> 10 then ''Rainy'' else ''Dry'')"
  by (simp add: season_bins_def season_labels_def)

text \<open>
  C9. For every row, the season label assigned by the temporal feature builder is a
  function of the month alone: months 1 to 5 give Dry, months 6 to 10 give Rainy,
  months 11 and 12 give Dry, every bin closed on its upper edge. The builder succeeds
  on every frame that has a date column.
\<close>

theorem season_by_month:
  assumes "getcol df ''date'' = Inr ds" and "i < length ds" and "ds ! i = Ts (y, m, d)"
    and "1 \<le> m" and "m \<le> 12"
  shows "\<exists>out s. create_temporal_features df = Inr out \<and> getcol out ''season'' = Inr s \<and>
           s ! i = Str (if m \<le> 5 then ''Dry'' else if m \<le> 10 then ''Rainy'' else ''Dry'')"
  using assms cut_season [of m]
  by (simp add: create_temporal_features_def assign_from_def cyclic_columns_def
      cyclic_encode_def)

theorem season_by_month_witness:
  "\<exists>out s. create_temporal_features [(''date'', [Ts (2024, 5, 31), Ts (2024, 6, 1)])] = Inr out \<and>
     getcol out ''season'' = Inr s \<and> s ! 1 = Str ''Rainy''"
  using season_by_month [of "[(''date'', [Ts (2024, 5, 31), Ts (2024, 6, 1)])]"
      "[Ts (2024, 5, 31), Ts (2024, 6, 1)]" 1 2024 6 1]
  by (simp add: getcol_def)

section \<open>Grouped transformations\<close>

lemma length_scatter [simp]: "length (scatter out idx ys) = length out"
  by (induction out idx ys rule: scatter.induct) auto

lemma scatter_other: "i \<notin> set idx \<Longrightarrow> scatter out idx ys ! i = out ! i"
  by (induction out idx ys rule: scatter.induct) auto


lemma distinct_group_indices [simp]: "distinct (group_indices ks k)"
  by (simp add: group_indices_def)

lemma set_group_indices: "set (group_indices ks k) = {i. i < length ks \<and> ks ! i = k}"
  by (auto simp: group_indices_def)


lemma length_gather [simp]: "length (gather xs idx) = length idx"
  by (simp add: gather_def)


lemma length_transform_fold [simp]:
  "length (foldl (transform_step ks f xs) out kl) = length out"
  by (induction kl arbitrary: out) (auto simp: transform_step_def)

lemma transform_fold_other:
  "ks ! i \<notin> set kl \<Longrightarrow> i < length ks \<Longrightarrow> foldl (transform_step ks f xs) out kl ! i = out ! i"
proof (induction kl arbitrary: out)
  case (Cons k kl)
  then have "i \<notin> set (group_indices ks k)" by (auto simp: set_group_indices)
  with Cons show ?case by (simp add: transform_step_def scatter_other)
qed simp


lemma groupby_transform_fold:
  "groupby_transform ks f xs =
     foldl (transform_step ks f xs) (replicate (length xs) NaN) (group_keys ks)"
  by (simp add: groupby_transform_def)

lemma set_group_keys [simp]: "set (group_keys ks) = set ks - {NaN}"
  by (auto simp: group_keys_def)

lemma distinct_group_keys [simp]: "distinct (group_keys ks)"
  by (simp add: group_keys_def)

lemma length_groupby_transform [simp]: "length (groupby_transform ks f xs) = length xs"
  by (simp add: groupby_transform_fold)


lemma groupby_transform_missing_key:
  assumes "length xs = length ks" and "i < length ks" and "ks ! i = NaN"
  shows "groupby_transform ks f xs ! i = NaN"
proof -
  have "ks ! i \<notin> set (group_keys ks)" using assms by simp
  then show ?thesis
    unfolding groupby_transform_fold using assms by (simp add: transform_fold_other)
qed

lemma length_rolling [simp]: "length (rolling w agg xs) = length xs"
  by (simp add: rolling_def)


lemma length_shift [simp]: "length (shift n xs) = length xs"
  by (simp add: shift_def)


section \<open>The rolling-window loop\<close>

lemma for_each_append:
  "for_each f (xs @ ys) df =
     (case for_each f xs df of Inl e \<Rightarrow> Inl e | Inr d \<Rightarrow> for_each f ys d)"
  by (induction xs arbitrary: df) (auto split: sum.splits)

lemma for_each_map: "for_each f (map g xs) df = for_each (\<lambda>x. f (g x)) xs df"
  by (induction xs arbitrary: df) (auto split: sum.splits)

lemma for_each_nested:
  "for_each (\<lambda>x. for_each (g x) ys) xs df =
     for_each (\<lambda>p. g (fst p) (snd p)) (List.product xs ys) df"
  by (induction xs arbitrary: df) (auto simp: for_each_append for_each_map split: sum.splits)

lemma frame_ok_setcol: "frame_ok n df \<Longrightarrow> length s = n \<Longrightarrow> frame_ok n (setcol df c s)"
  by (induction df c s rule: setcol.induct) (auto simp: frame_ok_def)

lemma frame_ok_getcol: "frame_ok n df \<Longrightarrow> getcol df c = Inr s \<Longrightarrow> length s = n"
  by (auto simp: frame_ok_def getcol_def list_all_iff split: option.splits dest!: map_of_SomeD)

lemma str_nat_3: "str_nat 3 = ''3''"
  by (simp add: str_nat.simps digit_char_def)

lemma str_nat_7: "str_nat 7 = ''7''"
  by (simp add: str_nat.simps digit_char_def)

lemma str_nat_14: "str_nat 14 = ''14''"
  by (simp add: str_nat.simps [of 14] str_nat.simps [of "Suc 0"] digit_char_def)

lemmas str_nat_windows = str_nat_3 str_nat_7 str_nat_14

lemma mean_name_neq_col [simp]: "mean_name col w \<noteq> col"
  by (simp add: mean_name_def)

lemma mean_name_neq_city [simp]: "mean_name col w \<noteq> ''city''"
proof
  assume "mean_name col w = ''city''"
  then have "last (mean_name col w) = last ''city''" by simp
  then show False by (simp add: mean_name_def)
qed

lemma std_name_neq_city [simp]: "std_name col w \<noteq> ''city''"
proof
  assume "std_name col w = ''city''"
  then have "last (std_name col w) = last ''city''" by simp
  then show False by (simp add: std_name_def)
qed

lemmas rolling_name_neq [simp] =
  mean_name_neq_col [THEN not_sym] mean_name_neq_city [THEN not_sym]
  std_name_neq_city [THEN not_sym]

lemma add_rolling_ok:
  assumes "getcol df ''city'' = Inr ks" and "getcol df col = Inr xs" and "numeric xs"
  shows "add_rolling col w df =
    Inr (setcol (setcol df (mean_name col w) (groupby_transform ks (rolling w (roll_mean 1)) xs))
      (std_name col w) (groupby_transform ks (rolling w (roll_std 1)) xs))"
  using assms by (simp add: add_rolling_def grouped_rolling_def)

lemma rolling_loop:
  fixes ps :: "(string \<times> nat) list"
  assumes city: "getcol df ''city'' = Inr ks"
  shows "\<forall>p\<in>set ps. \<exists>xs. getcol df (fst p) = Inr xs \<and> numeric xs \<Longrightarrow>
    \<forall>p\<in>set ps. \<forall>q\<in>set ps.
       mean_name (fst p) (snd p) \<noteq> fst q \<and> std_name (fst p) (snd p) \<noteq> fst q \<Longrightarrow>
    distinct (concat (map (\<lambda>p. [mean_name (fst p) (snd p), std_name (fst p) (snd p)]) ps)) \<Longrightarrow>
    frame_ok n df \<Longrightarrow>
    \<exists>out. for_each (\<lambda>p. add_rolling (fst p) (snd p)) ps df = Inr out \<and> frame_ok n out \<and>
      (\<forall>c. c \<notin> (\<lambda>p. mean_name (fst p) (snd p)) ` set ps \<longrightarrow>
           c \<notin> (\<lambda>p. std_name (fst p) (snd p)) ` set ps \<longrightarrow> getcol out c = getcol df c) \<and>
      (\<forall>p\<in>set ps. \<forall>xs. getcol df (fst p) = Inr xs \<longrightarrow>
         getcol out (mean_name (fst p) (snd p)) =
           Inr (groupby_transform ks (rolling (snd p) (roll_mean 1)) xs) \<and>
         getcol out (std_name (fst p) (snd p)) =
           Inr (groupby_transform ks (rolling (snd p) (roll_std 1)) xs))"
proof (induction ps rule: rev_induct)
  case Nil
  then show ?case by simp
next
  case (snoc p ps)
  let ?m = "\<lambda>p. mean_name (fst p) (snd p)" and ?s = "\<lambda>p. std_name (fst p) (snd p)"
  have a: "\<forall>p\<in>set ps. \<exists>xs. getcol df (fst p) = Inr xs \<and> numeric xs"
    using snoc.prems(1) by simp
  have b: "\<forall>p\<in>set ps. \<forall>q\<in>set ps. ?m p \<noteq> fst q \<and> ?s p \<noteq> fst q"
    using snoc.prems(2) by simp
  have c: "distinct (concat (map (\<lambda>p. [?m p, ?s p]) ps))"
    using snoc.prems(3) by simp
  from snoc.IH [OF a b c snoc.prems(4)] obtain out where
    out: "for_each (\<lambda>p. add_rolling (fst p) (snd p)) ps df = Inr out" and
    ok: "frame_ok n out" and
    other': "\<forall>c. c \<notin> ?m ` set ps \<longrightarrow> c \<notin> ?s ` set ps \<longrightarrow> getcol out c = getcol df c" and
    prev': "\<forall>q\<in>set ps. \<forall>xs. getcol df (fst q) = Inr xs \<longrightarrow>
       getcol out (?m q) = Inr (groupby_transform ks (rolling (snd q) (roll_mean 1)) xs) \<and>
       getcol out (?s q) = Inr (groupby_transform ks (rolling (snd q) (roll_std 1)) xs)"
    by blast
  have other: "getcol out c = getcol df c" if "c \<notin> ?m ` set ps" "c \<notin> ?s ` set ps" for c
    using other' that by blast
  have prev: "getcol out (?m q) = Inr (groupby_transform ks (rolling (snd q) (roll_mean 1)) xs) \<and>
       getcol out (?s q) = Inr (groupby_transform ks (rolling (snd q) (roll_std 1)) xs)"
    if "q \<in> set ps" "getcol df (fst q) = Inr xs" for q xs
    using prev' that by blast
  from snoc.prems(1) obtain xs where xs: "getcol df (fst p) = Inr xs" "numeric xs" by auto
  have "''city'' \<notin> ?m ` set ps" "''city'' \<notin> ?s ` set ps"
    by (auto simp: image_iff)
  then have "getcol out ''city'' = Inr ks"
    using other [of "''city''"] city by simp
  moreover have "fst p \<notin> ?m ` set ps" "fst p \<notin> ?s ` set ps"
    using snoc.prems(2) by force+
  then have "getcol out (fst p) = Inr xs" using other xs by simp
  ultimately have step: "add_rolling (fst p) (snd p) out =
    Inr (setcol (setcol out (?m p) (groupby_transform ks (rolling (snd p) (roll_mean 1)) xs))
      (?s p) (groupby_transform ks (rolling (snd p) (roll_std 1)) xs))"
    using xs by (intro add_rolling_ok)
  let ?out = "setcol (setcol out (?m p) (groupby_transform ks (rolling (snd p) (roll_mean 1)) xs))
      (?s p) (groupby_transform ks (rolling (snd p) (roll_std 1)) xs)"
  have len: "length xs = n" using frame_ok_getcol [OF snoc.prems(4) xs(1)] .
  have 1: "for_each (\<lambda>p. add_rolling (fst p) (snd p)) (ps @ [p]) df = Inr ?out"
    by (simp add: for_each_append out step)
  have 2: "frame_ok n ?out"
    using ok len by (intro frame_ok_setcol) auto
  have 3: "getcol ?out c = getcol df c"
    if "c \<notin> ?m ` set (ps @ [p])" "c \<notin> ?s ` set (ps @ [p])" for c
    using that other [of c] by auto
  have neq: "?m p \<noteq> ?s p" "\<And>q. q \<in> set ps \<Longrightarrow> ?m q \<noteq> ?m p \<and> ?m q \<noteq> ?s p \<and> ?s q \<noteq> ?m p \<and> ?s q \<noteq> ?s p"
    using snoc.prems(3) by auto
  have 4: "getcol ?out (?m q) = Inr (groupby_transform ks (rolling (snd q) (roll_mean 1)) ys) \<and>
      getcol ?out (?s q) = Inr (groupby_transform ks (rolling (snd q) (roll_std 1)) ys)"
    if "q \<in> set (ps @ [p])" "getcol df (fst q) = Inr ys" for q ys
  proof (cases "q \<in> set ps")
    case True
    with prev [OF True that(2)] neq(2) [OF True] show ?thesis by simp
  next
    case False
    with that have "q = p" by simp
    with that xs neq(1) show ?thesis by auto
  qed
  from 1 2 3 4 show ?case by blast
qed

section \<open>The features before the repair\<close>

lemma rolling_columns_eq:
  "rolling_columns =
    [''temperature_2m_max_3d_mean'', ''temperature_2m_max_3d_std'',
     ''temperature_2m_max_7d_mean'', ''temperature_2m_max_7d_std'',
     ''temperature_2m_max_14d_mean'', ''temperature_2m_max_14d_std'',
     ''temperature_2m_min_3d_mean'', ''temperature_2m_min_3d_std'',
     ''temperature_2m_min_7d_mean'', ''temperature_2m_min_7d_std'',
     ''temperature_2m_min_14d_mean'', ''temperature_2m_min_14d_std'',
     ''precipitation_sum_3d_mean'', ''precipitation_sum_3d_std'',
     ''precipitation_sum_7d_mean'', ''precipitation_sum_7d_std'',
     ''precipitation_sum_14d_mean'', ''precipitation_sum_14d_std'',
     ''wind_speed_10m_max_3d_mean'', ''wind_speed_10m_max_3d_std'',
     ''wind_speed_10m_max_7d_mean'', ''wind_speed_10m_max_7d_std'',
     ''wind_speed_10m_max_14d_mean'', ''wind_speed_10m_max_14d_std'']"
  by (simp add: rolling_columns_def weather_cols_def windows_def mean_name_def std_name_def
      str_nat_windows)

lemma derived_columns_eq:
  "derived_columns = rolling_columns @
    [''optimal_mosquito_temp'', ''breeding_conditions'', ''breeding_conditions_lag_3'',
     ''breeding_conditions_lag_7'', ''breeding_conditions_lag_14'']"
  by (simp add: derived_columns_def lag_days_def lag_name_def str_nat_windows)

lemma distinct_derived_columns: "distinct derived_columns"
  by (simp add: derived_columns_eq rolling_columns_eq)

lemma derived_not_source:
  "c \<in> set derived_columns \<Longrightarrow> c \<notin> set weather_cols \<and> c \<notin> set exclude_columns"
  by (auto simp: derived_columns_eq rolling_columns_eq weather_cols_def exclude_columns_def)

lemma set_rolling_columns:
  "set rolling_columns =
     (\<lambda>p. mean_name (fst p) (snd p)) ` set (List.product weather_cols windows) \<union>
     (\<lambda>p. std_name (fst p) (snd p)) ` set (List.product weather_cols windows)"
  unfolding rolling_columns_def by (simp add: image_Un [symmetric]) blast

lemma rolling_window_statistics_ok:
  assumes city: "getcol df ''city'' = Inr ks"
    and weather: "\<forall>c\<in>set weather_cols. \<exists>xs. getcol df c = Inr xs \<and> numeric xs"
    and ok: "frame_ok n df"
  shows "\<exists>out. rolling_window_statistics df = Inr out \<and> frame_ok n out \<and>
      (\<forall>c. c \<notin> set rolling_columns \<longrightarrow> getcol out c = getcol df c) \<and>
      (\<forall>col\<in>set weather_cols. \<forall>w\<in>set windows. \<forall>xs. getcol df col = Inr xs \<longrightarrow>
         getcol out (mean_name col w) = Inr (groupby_transform ks (rolling w (roll_mean 1)) xs) \<and>
         getcol out (std_name col w) = Inr (groupby_transform ks (rolling w (roll_std 1)) xs))"
proof -
  let ?ps = "List.product weather_cols windows"
  have a: "\<forall>p\<in>set ?ps. \<exists>xs. getcol df (fst p) = Inr xs \<and> numeric xs"
    using weather by auto
  have b: "\<forall>p\<in>set ?ps. \<forall>q\<in>set ?ps.
      mean_name (fst p) (snd p) \<noteq> fst q \<and> std_name (fst p) (snd p) \<noteq> fst q"
  proof (intro ballI)
    fix p q assume "p \<in> set ?ps" "q \<in> set ?ps"
    then have "mean_name (fst p) (snd p) \<in> set derived_columns"
      "std_name (fst p) (snd p) \<in> set derived_columns" "fst q \<in> set weather_cols"
      unfolding derived_columns_def set_append set_rolling_columns by force+
    then show "mean_name (fst p) (snd p) \<noteq> fst q \<and> std_name (fst p) (snd p) \<noteq> fst q"
      using derived_not_source by metis
  qed
  have c: "distinct (concat (map (\<lambda>p. [mean_name (fst p) (snd p), std_name (fst p) (snd p)]) ?ps))"
    using distinct_derived_columns by (simp add: derived_columns_def rolling_columns_def)
  from rolling_loop [OF city a b c ok] obtain out where
    r1: "for_each (\<lambda>p. add_rolling (fst p) (snd p)) ?ps df = Inr out" and
    r2: "frame_ok n out" and
    r3: "\<forall>c. c \<notin> (\<lambda>p. mean_name (fst p) (snd p)) ` set ?ps \<longrightarrow>
         c \<notin> (\<lambda>p. std_name (fst p) (snd p)) ` set ?ps \<longrightarrow> getcol out c = getcol df c" and
    r4: "\<forall>p\<in>set ?ps. \<forall>xs. getcol df (fst p) = Inr xs \<longrightarrow>
         getcol out (mean_name (fst p) (snd p)) =
           Inr (groupby_transform ks (rolling (snd p) (roll_mean 1)) xs) \<and>
         getcol out (std_name (fst p) (snd p)) =
           Inr (groupby_transform ks (rolling (snd p) (roll_std 1)) xs)"
    by blast
  have s1: "rolling_window_statistics df = Inr out"
    using r1 by (simp add: rolling_window_statistics_def for_each_nested)
  have s3: "getcol out c = getcol df c" if "c \<notin> set rolling_columns" for c
  proof -
    from that have "c \<notin> (\<lambda>p. mean_name (fst p) (snd p)) ` set ?ps"
      "c \<notin> (\<lambda>p. std_name (fst p) (snd p)) ` set ?ps"
      unfolding set_rolling_columns by blast+
    with r3 show ?thesis by blast
  qed
  have s4: "getcol out (mean_name col w) = Inr (groupby_transform ks (rolling w (roll_mean 1)) xs) \<and>
      getcol out (std_name col w) = Inr (groupby_transform ks (rolling w (roll_std 1)) xs)"
    if "col \<in> set weather_cols" "w \<in> set windows" "getcol df col = Inr xs" for col w xs
  proof -
    from that have "(col, w) \<in> set ?ps" by simp
    with r4 that(3) show ?thesis by fastforce
  qed
  from s1 r2 s3 s4 show ?thesis by blast
qed

lemma compare_numeric [simp]: "numeric xs \<Longrightarrow> compare p xs = Inr (map (test_cell p) xs)"
  by (simp add: compare_def)

lemma disease_indicators_ok:
  assumes "getcol df ''temperature_2m_max'' = Inr tmax" and "numeric tmax"
    and "getcol df ''temperature_2m_min'' = Inr tmin" and "numeric tmin"
    and "getcol df ''precipitation_sum'' = Inr prec" and "numeric prec"
  shows "disease_indicators df =
    Inr (setcol (setcol df ''optimal_mosquito_temp''
        (astype_int (both (map (test_cell (\<lambda>r. 25 \<le> r)) tmax) (map (test_cell (\<lambda>r. r \<le> 35)) tmax))))
      ''breeding_conditions''
        (astype_int (both (map (test_cell (\<lambda>r. 0 < r)) prec) (map (test_cell (\<lambda>r. 20 < r)) tmin))))"
  using assms by (simp add: disease_indicators_def column_test_def)

lemma lag_features_ok:
  assumes "getcol df ''city'' = Inr ks" and "getcol df ''breeding_conditions'' = Inr bc"
  shows "lag_features df =
    Inr (setcol (setcol (setcol df
      ''breeding_conditions_lag_3'' (fillna (Num 0) (groupby_transform ks (shift 3) bc)))
      ''breeding_conditions_lag_7'' (fillna (Num 0) (groupby_transform ks (shift 7) bc)))
      ''breeding_conditions_lag_14'' (fillna (Num 0) (groupby_transform ks (shift 14) bc)))"
  using assms by (simp add: lag_features_def lag_days_def add_lag_def lag_name_def str_nat_windows)

lemma length_astype_both [simp]:
  "length (astype_int (both (map f xs) (map g ys))) = min (length xs) (length ys)"
  by (simp add: astype_int_def both_def)

lemma length_fillna [simp]: "length (fillna v xs) = length xs"
  by (simp add: fillna_def)

lemma rolling_not_indicator:
  "c \<in> set rolling_columns \<Longrightarrow>
    c \<noteq> ''optimal_mosquito_temp'' \<and> c \<noteq> ''breeding_conditions'' \<and>
    c \<noteq> ''breeding_conditions_lag_3'' \<and> c \<noteq> ''breeding_conditions_lag_7'' \<and>
    c \<noteq> ''breeding_conditions_lag_14''"
  by (auto simp: rolling_columns_eq)

lemma rolling_name_mem:
  "col \<in> set weather_cols \<Longrightarrow> w \<in> set windows \<Longrightarrow>
    mean_name col w \<in> set rolling_columns \<and> std_name col w \<in> set rolling_columns"
  unfolding set_rolling_columns by force

lemma astype_int_no_nan [simp]: "NaN \<notin> set (astype_int bs)"
  by (auto simp: astype_int_def)

lemma fillna_no_nan [simp]: "v \<noteq> NaN \<Longrightarrow> NaN \<notin> set (fillna v xs)"
  by (auto simp: fillna_def)

lemma engineered_features_ok:
  assumes city: "getcol df ''city'' = Inr ks"
    and weather: "\<forall>c\<in>set weather_cols. \<exists>xs. getcol df c = Inr xs \<and> numeric xs"
    and ok: "frame_ok n df"
  shows "\<exists>mid bc omt. engineered_features df = Inr mid \<and> frame_ok n mid \<and>
      (\<forall>c. c \<notin> set derived_columns \<longrightarrow> getcol mid c = getcol df c) \<and>
      (\<forall>col\<in>set weather_cols. \<forall>w\<in>set windows. \<forall>xs. getcol df col = Inr xs \<longrightarrow>
         getcol mid (mean_name col w) = Inr (groupby_transform ks (rolling w (roll_mean 1)) xs) \<and>
         getcol mid (std_name col w) = Inr (groupby_transform ks (rolling w (roll_std 1)) xs)) \<and>
      getcol mid ''optimal_mosquito_temp'' = Inr omt \<and> NaN \<notin> set omt \<and>
      getcol mid ''breeding_conditions'' = Inr bc \<and> NaN \<notin> set bc \<and> length bc = n \<and>
      (\<forall>lag\<in>set lag_days. getcol mid (lag_name lag) =
         Inr (fillna (Num 0) (groupby_transform ks (shift lag) bc)))"
proof -
  from rolling_window_statistics_ok [OF city weather ok] obtain d1 where
    d1: "rolling_window_statistics df = Inr d1" and ok1: "frame_ok n d1" and
    same': "\<forall>c. c \<notin> set rolling_columns \<longrightarrow> getcol d1 c = getcol df c" and
    roll': "\<forall>col\<in>set weather_cols. \<forall>w\<in>set windows. \<forall>xs. getcol df col = Inr xs \<longrightarrow>
         getcol d1 (mean_name col w) = Inr (groupby_transform ks (rolling w (roll_mean 1)) xs) \<and>
         getcol d1 (std_name col w) = Inr (groupby_transform ks (rolling w (roll_std 1)) xs)"
    by blast
  have same: "getcol d1 c = getcol df c" if "c \<notin> set rolling_columns" for c
    using same' that by blast
  from weather obtain tmax tmin prec where
    src: "getcol df ''temperature_2m_max'' = Inr tmax" "numeric tmax"
      "getcol df ''temperature_2m_min'' = Inr tmin" "numeric tmin"
      "getcol df ''precipitation_sum'' = Inr prec" "numeric prec"
    by (auto simp: weather_cols_def)
  have src1: "getcol d1 ''temperature_2m_max'' = Inr tmax"
    "getcol d1 ''temperature_2m_min'' = Inr tmin" "getcol d1 ''precipitation_sum'' = Inr prec"
    "getcol d1 ''city'' = Inr ks"
    using src city by (simp_all add: same rolling_columns_eq)
  define omt where "omt =
    astype_int (both (map (test_cell (\<lambda>r. 25 \<le> r)) tmax) (map (test_cell (\<lambda>r. r \<le> 35)) tmax))"
  define bc where "bc =
    astype_int (both (map (test_cell (\<lambda>r. 0 < r)) prec) (map (test_cell (\<lambda>r. 20 < r)) tmin))"
  define d2 where "d2 = setcol (setcol d1 ''optimal_mosquito_temp'' omt) ''breeding_conditions'' bc"
  define mid where "mid = setcol (setcol (setcol d2
      ''breeding_conditions_lag_3'' (fillna (Num 0) (groupby_transform ks (shift 3) bc)))
      ''breeding_conditions_lag_7'' (fillna (Num 0) (groupby_transform ks (shift 7) bc)))
      ''breeding_conditions_lag_14'' (fillna (Num 0) (groupby_transform ks (shift 14) bc))"
  have d2: "disease_indicators d1 = Inr d2"
    unfolding d2_def omt_def bc_def using src1 src by (intro disease_indicators_ok)
  have "getcol d2 ''city'' = Inr ks" "getcol d2 ''breeding_conditions'' = Inr bc"
    using src1 by (simp_all add: d2_def)
  then have "lag_features d2 = Inr mid"
    unfolding mid_def by (rule lag_features_ok)
  with d1 d2 have r1: "engineered_features df = Inr mid"
    by (simp add: engineered_features_def)
  have len: "length tmax = n" "length tmin = n" "length prec = n"
    using src ok by (auto dest: frame_ok_getcol)
  then have lbc: "length bc = n" "length omt = n"
    by (simp_all add: bc_def omt_def)
  have r2: "frame_ok n mid"
    unfolding mid_def d2_def using ok1 lbc by (intro frame_ok_setcol) simp_all
  have r3: "getcol mid c = getcol df c" if "c \<notin> set derived_columns" for c
    using that same [of c] by (simp add: mid_def d2_def derived_columns_eq)
  have r4: "getcol mid (mean_name col w) = Inr (groupby_transform ks (rolling w (roll_mean 1)) xs) \<and>
      getcol mid (std_name col w) = Inr (groupby_transform ks (rolling w (roll_std 1)) xs)"
    if "col \<in> set weather_cols" "w \<in> set windows" "getcol df col = Inr xs" for col w xs
  proof -
    from roll' that have "getcol d1 (mean_name col w) =
        Inr (groupby_transform ks (rolling w (roll_mean 1)) xs) \<and>
      getcol d1 (std_name col w) = Inr (groupby_transform ks (rolling w (roll_std 1)) xs)"
      by blast
    moreover from rolling_name_mem [OF that(1,2)]
    have "getcol mid (mean_name col w) = getcol d1 (mean_name col w)"
      "getcol mid (std_name col w) = getcol d1 (std_name col w)"
      using rolling_not_indicator by (simp_all add: mid_def d2_def)
    ultimately show ?thesis by simp
  qed
  have r5: "getcol mid ''optimal_mosquito_temp'' = Inr omt" "NaN \<notin> set omt"
    "getcol mid ''breeding_conditions'' = Inr bc" "NaN \<notin> set bc"
    by (simp_all add: mid_def d2_def omt_def bc_def)
  have r6: "\<forall>lag\<in>set lag_days. getcol mid (lag_name lag) =
         Inr (fillna (Num 0) (groupby_transform ks (shift lag) bc))"
    by (simp add: lag_days_def lag_name_def str_nat_windows mid_def)
  from r1 r2 r3 r4 r5 r6 lbc(1) show ?thesis by blast
qed






lemma example_frame_ok:
  "getcol example_frame ''city'' = Inr [Str ''A'', Str ''A'', Str ''B'', Str ''A'', Str ''A'']"
  "\<forall>c\<in>set weather_cols. \<exists>xs. getcol example_frame c = Inr xs \<and> numeric xs"
  "frame_ok 5 example_frame"
  by (simp_all add: example_frame_def getcol_def weather_cols_def numeric_def frame_ok_def)






section \<open>The missing-value repair\<close>

lemma columns_getcol: "c \<in> set (columns df) \<longleftrightarrow> (\<exists>s. getcol df c = Inr s)"
proof (cases "map_of df c")
  case None
  then have "c \<notin> fst ` set df" by (simp add: map_of_eq_None_iff)
  with None show ?thesis by (simp add: columns_def getcol_def)
next
  case (Some s)
  then have "c \<in> dom (map_of df)" by blast
  then have "c \<in> fst ` set df" by (simp add: dom_map_of_conv_image_fst)
  with Some show ?thesis by (simp add: columns_def getcol_def)
qed

lemma getcol_map_of: "getcol df c = Inr s \<longleftrightarrow> map_of df c = Some s"
  by (auto simp: getcol_def split: option.splits)

lemma getcol_eq_map_of: "getcol df c = getcol df' c \<Longrightarrow> map_of df c = map_of df' c"
  by (auto simp: getcol_def split: option.splits)

lemma frame_ok_nrows: "frame_ok n df \<Longrightarrow> df \<noteq> [] \<Longrightarrow> nrows df = n"
  by (cases df) (auto simp: frame_ok_def nrows_def)

lemma map_of_fill_columns:
  "map_of (fill_columns f cs df) c =
     map_option (\<lambda>s. if c \<in> set cs then f s else s) (map_of df c)"
  by (induction df) (auto simp: fill_columns_def)

lemma columns_fill_columns [simp]: "columns (fill_columns f cs df) = columns df"
  by (induction df) (auto simp: fill_columns_def columns_def)

lemma nrows_fill_columns:
  "(\<And>s. length (f s) = length s) \<Longrightarrow> nrows (fill_columns f cs df) = nrows df"
  by (cases df) (auto simp: fill_columns_def nrows_def)

lemma length_ffill_from [simp]: "length (ffill_from prev xs) = length xs"
  by (induction xs arbitrary: prev) auto

lemma length_ffill [simp]: "length (ffill xs) = length xs"
  by (simp add: ffill_def)

lemma length_bfill [simp]: "length (bfill xs) = length xs"
  by (simp add: bfill_def)

lemma map_of_map_snd:
  "map_of (map (\<lambda>p. (fst p, g (snd p))) df) c = map_option g (map_of df c)"
  by (induction df) auto

lemma dropna_subset_ok:
  assumes "set labels \<subseteq> set (columns df)"
  shows "dropna_subset labels df =
    Inr (map (\<lambda>p. (fst p, select_rows (row_mask df labels) (snd p))) df)"
proof -
  have "filter (\<lambda>c. c \<notin> set (columns df)) labels = []"
    using assms by (auto simp: filter_empty_conv)
  then show ?thesis by (simp add: dropna_subset_def)
qed

lemma complete_row_cong:
  "(\<And>c. c \<in> set labels \<Longrightarrow> map_of df c = map_of df' c) \<Longrightarrow>
   complete_row df labels i = complete_row df' labels i"
  by (simp add: complete_row_def list_all_iff)

lemma repair_missing_ok:
  assumes ctx: "set exclude_columns \<subseteq> set (columns mid)"
  shows "\<exists>out. repair_missing mid = Inr out \<and>
    (\<forall>c s. getcol mid c = Inr s \<longrightarrow>
       getcol out c = Inr (select_rows (row_mask mid exclude_columns)
         (if c \<in> set exclude_columns then s else bfill (ffill s))))"
proof -
  let ?cs = "all_weather_columns mid"
  let ?df2 = "fill_columns bfill ?cs (fill_columns ffill ?cs mid)"
  let ?out = "map (\<lambda>p. (fst p, select_rows (row_mask ?df2 exclude_columns) (snd p))) ?df2"
  have r: "repair_missing mid = Inr ?out"
    using ctx by (simp add: repair_missing_def Let_def dropna_subset_ok)
  have m2: "map_of ?df2 c = map_of mid c" if "c \<in> set exclude_columns" for c
    using that by (cases "map_of mid c") (auto simp: map_of_fill_columns all_weather_columns_def)
  have "nrows ?df2 = nrows mid"
    by (simp add: nrows_fill_columns)
  then have mask: "row_mask ?df2 exclude_columns = row_mask mid exclude_columns"
    unfolding row_mask_def using complete_row_cong [of exclude_columns ?df2 mid] m2 by simp
  have "getcol ?out c = Inr (select_rows (row_mask mid exclude_columns)
         (if c \<in> set exclude_columns then s else bfill (ffill s)))"
    if "getcol mid c = Inr s" for c s
  proof -
    from that have s: "map_of mid c = Some s" by (simp add: getcol_map_of)
    then have "c \<in> set (columns mid)" using that columns_getcol by blast
    then have "c \<in> set ?cs \<longleftrightarrow> c \<notin> set exclude_columns"
      by (simp add: all_weather_columns_def)
    then have "map_of ?df2 c = Some (if c \<in> set exclude_columns then s else bfill (ffill s))"
      using s by (simp add: map_of_fill_columns)
    then show ?thesis
      by (simp add: getcol_map_of map_of_map_snd mask)
  qed
  with r show ?thesis by blast
qed

lemma ffill_from_no_nan: "prev \<noteq> NaN \<Longrightarrow> NaN \<notin> set (ffill_from prev xs)"
  by (induction xs arbitrary: prev) auto

lemma ffill_from_id: "NaN \<notin> set xs \<Longrightarrow> ffill_from prev xs = xs"
  by (induction xs arbitrary: prev) auto

lemma ffill_id: "NaN \<notin> set xs \<Longrightarrow> ffill xs = xs"
  by (simp add: ffill_def ffill_from_id)

lemma bfill_id: "NaN \<notin> set xs \<Longrightarrow> bfill xs = xs"
  by (simp add: bfill_def ffill_id)

lemma ffill_from_nth:
  "i < length xs \<Longrightarrow>
   ffill_from prev xs ! i =
     (if filter (\<lambda>c. c \<noteq> NaN) (take (Suc i) xs) = [] then prev
      else last (filter (\<lambda>c. c \<noteq> NaN) (take (Suc i) xs)))"
proof (induction xs arbitrary: prev i)
  case Nil
  then show ?case by simp
next
  case (Cons x xs)
  show ?case
  proof (cases i)
    case 0
    then show ?thesis by simp
  next
    case (Suc j)
    with Cons.prems have j: "j < length xs" by simp
    show ?thesis
      using Cons.IH [OF j, of prev] Cons.IH [OF j, of x] Suc by simp
  qed
qed

lemma ffill_nth:
  "i < length xs \<Longrightarrow>
   ffill xs ! i =
     (if filter (\<lambda>c. c \<noteq> NaN) (take (Suc i) xs) = [] then NaN
      else last (filter (\<lambda>c. c \<noteq> NaN) (take (Suc i) xs)))"
  by (simp add: ffill_def ffill_from_nth)

lemma bfill_nth:
  assumes "i < length xs"
  shows "bfill xs ! i =
     (if filter (\<lambda>c. c \<noteq> NaN) (drop i xs) = [] then NaN
      else hd (filter (\<lambda>c. c \<noteq> NaN) (drop i xs)))"
proof -
  let ?n = "length xs"
  have j: "?n - Suc i < length (rev xs)" using assms by simp
  have t: "take (Suc (?n - Suc i)) (rev xs) = rev (drop i xs)"
    using assms by (simp add: take_rev Suc_diff_Suc)
  have "bfill xs ! i = ffill (rev xs) ! (?n - Suc i)"
    using assms by (simp add: bfill_def rev_nth)
  also have "\<dots> = (if filter (\<lambda>c. c \<noteq> NaN) (rev (drop i xs)) = [] then NaN
      else last (filter (\<lambda>c. c \<noteq> NaN) (rev (drop i xs))))"
    using ffill_nth [OF j] t by simp
  also have "\<dots> = (if filter (\<lambda>c. c \<noteq> NaN) (drop i xs) = [] then NaN
      else hd (filter (\<lambda>c. c \<noteq> NaN) (drop i xs)))"
    by (simp add: rev_filter [symmetric] last_rev)
  finally show ?thesis .
qed

lemma ffill_from_missing_prefix:
  "\<forall>a\<in>set as. a = NaN \<Longrightarrow>
   ffill_from prev (as @ bs) = replicate (length as) prev @ ffill_from prev bs"
  by (induction as) auto

lemma observed_ffill_from:
  "(filter (\<lambda>c. c \<noteq> NaN) (ffill_from NaN zs) = []) = (filter (\<lambda>c. c \<noteq> NaN) zs = []) \<and>
   hd (filter (\<lambda>c. c \<noteq> NaN) (ffill_from NaN zs)) = hd (filter (\<lambda>c. c \<noteq> NaN) zs)"
  by (induction zs) auto

text \<open>
  Forward fill followed by backward fill: a cell takes the nearest observed value at or
  before its row, else the nearest observed value after it, else it stays missing.
\<close>

lemma repair_nth:
  assumes i: "i < length xs"
  shows "bfill (ffill xs) ! i =
     (if filter (\<lambda>c. c \<noteq> NaN) (take (Suc i) xs) \<noteq> []
      then last (filter (\<lambda>c. c \<noteq> NaN) (take (Suc i) xs))
      else if filter (\<lambda>c. c \<noteq> NaN) (drop (Suc i) xs) \<noteq> []
      then hd (filter (\<lambda>c. c \<noteq> NaN) (drop (Suc i) xs))
      else NaN)"
proof (cases "filter (\<lambda>c. c \<noteq> NaN) (take (Suc i) xs) = []")
  case False
  let ?v = "last (filter (\<lambda>c. c \<noteq> NaN) (take (Suc i) xs))"
  have "?v \<in> set (filter (\<lambda>c. c \<noteq> NaN) (take (Suc i) xs))"
    using False last_in_set by blast
  then have v: "?v \<noteq> NaN" by simp
  have f: "ffill xs ! i = ?v" using i False by (simp add: ffill_nth)
  have "drop i (ffill xs) = ffill xs ! i # drop (Suc i) (ffill xs)"
    using i by (simp add: Cons_nth_drop_Suc)
  then have "filter (\<lambda>c. c \<noteq> NaN) (drop i (ffill xs)) =
      ?v # filter (\<lambda>c. c \<noteq> NaN) (drop (Suc i) (ffill xs))"
    using f v by simp
  then have "bfill (ffill xs) ! i = ?v"
    using i by (simp add: bfill_nth)
  with False show ?thesis by simp
next
  case True
  let ?as = "take (Suc i) xs" and ?zs = "drop (Suc i) xs"
  have as: "\<forall>a\<in>set ?as. a = NaN"
    using True by (simp add: filter_empty_conv)
  have "ffill xs = ffill_from NaN (?as @ ?zs)" by (simp add: ffill_def)
  also have "\<dots> = replicate (length ?as) NaN @ ffill_from NaN ?zs"
    using as by (rule ffill_from_missing_prefix)
  also have "\<dots> = replicate i NaN @ NaN # ffill_from NaN ?zs"
    using i by (simp add: min_absorb2 replicate_append_same)
  finally have "drop i (ffill xs) = NaN # ffill_from NaN ?zs"
    by simp
  then have "filter (\<lambda>c. c \<noteq> NaN) (drop i (ffill xs)) =
      filter (\<lambda>c. c \<noteq> NaN) (ffill_from NaN ?zs)"
    by simp
  then have "bfill (ffill xs) ! i =
      (if filter (\<lambda>c. c \<noteq> NaN) ?zs = [] then NaN else hd (filter (\<lambda>c. c \<noteq> NaN) ?zs))"
    using i observed_ffill_from [of ?zs] by (simp add: bfill_nth)
  with True show ?thesis by simp
qed

lemma repair_no_nan:
  assumes "\<exists>x\<in>set xs. x \<noteq> NaN"
  shows "NaN \<notin> set (bfill (ffill xs))"
proof
  assume "NaN \<in> set (bfill (ffill xs))"
  then obtain i where i: "i < length xs" and n: "bfill (ffill xs) ! i = NaN"
    by (auto simp: in_set_conv_nth)
  let ?b = "filter (\<lambda>c. c \<noteq> NaN) (take (Suc i) xs)"
  let ?a = "filter (\<lambda>c. c \<noteq> NaN) (drop (Suc i) xs)"
  have "filter (\<lambda>c. c \<noteq> NaN) xs = ?b @ ?a"
    by (simp add: filter_append [symmetric] del: filter_append)
  moreover have "filter (\<lambda>c. c \<noteq> NaN) xs \<noteq> []"
    using assms by (simp add: filter_empty_conv)
  ultimately have ne: "?b \<noteq> [] \<or> ?a \<noteq> []" by auto
  have "?b \<noteq> [] \<Longrightarrow> last ?b \<noteq> NaN"
    using last_in_set [of ?b] by auto
  moreover have "?a \<noteq> [] \<Longrightarrow> hd ?a \<noteq> NaN"
    using hd_in_set [of ?a] by auto
  ultimately show False
    using ne n repair_nth [OF i] by (auto split: if_splits)
qed

lemma repair_id: "NaN \<notin> set xs \<Longrightarrow> bfill (ffill xs) = xs"
  by (simp add: ffill_id bfill_id)

lemma set_select_rows: "set (select_rows keep s) \<subseteq> set s"
  by (auto simp: select_rows_def dest: set_zip_rightD)

lemma getcol_nonempty: "getcol df c = Inr s \<Longrightarrow> df \<noteq> []"
  by (auto simp: getcol_def)

lemma create_weather_features_ok:
  assumes mid: "engineered_features df = Inr mid"
    and same: "\<forall>c. c \<notin> set derived_columns \<longrightarrow> getcol mid c = getcol df c"
    and ok: "frame_ok n df" "frame_ok n mid"
    and ctx: "set exclude_columns \<subseteq> set (columns df)"
  shows "\<exists>out. create_weather_features df = Inr out \<and>
    (\<forall>c s. getcol mid c = Inr s \<longrightarrow>
       getcol out c = Inr (select_rows (row_mask df exclude_columns)
         (if c \<in> set exclude_columns then s else bfill (ffill s))))"
proof -
  have eq: "getcol mid c = getcol df c" if "c \<in> set exclude_columns" for c
    using that same derived_not_source by blast
  have ctx': "set exclude_columns \<subseteq> set (columns mid)"
  proof
    fix c assume c: "c \<in> set exclude_columns"
    with ctx obtain s where "getcol df c = Inr s" using columns_getcol by blast
    with eq [OF c] show "c \<in> set (columns mid)" using columns_getcol by metis
  qed
  have "''city'' \<in> set exclude_columns" by (simp add: exclude_columns_def)
  with ctx ctx' have "df \<noteq> []" "mid \<noteq> []" by (auto simp: columns_def)
  with ok have "nrows mid = nrows df" by (simp add: frame_ok_nrows)
  moreover have "complete_row mid exclude_columns i = complete_row df exclude_columns i" for i
    using eq by (intro complete_row_cong getcol_eq_map_of)
  ultimately have mask: "row_mask mid exclude_columns = row_mask df exclude_columns"
    by (simp add: row_mask_def)
  from repair_missing_ok [OF ctx'] mid show ?thesis
    by (simp add: create_weather_features_def mask)
qed

text \<open>
  C5 (amended). After the repair, every indicator column and every lag column of the
  returned dataset is fully populated. A rolling-statistic column is fully populated
  whenever at least one of its cells had a value before the repair; the forward and
  backward fill cannot populate a column that is missing in every row.
\<close>

theorem repaired_columns_populated:
  assumes city: "getcol df ''city'' = Inr ks"
    and weather: "\<forall>c\<in>set weather_cols. \<exists>xs. getcol df c = Inr xs \<and> numeric xs"
    and ok: "frame_ok n df"
    and ctx: "set exclude_columns \<subseteq> set (columns df)"
  shows "\<exists>mid out. engineered_features df = Inr mid \<and> create_weather_features df = Inr out \<and>
      (\<forall>c\<in>set ([''optimal_mosquito_temp'', ''breeding_conditions''] @ map lag_name lag_days).
         \<exists>s. getcol out c = Inr s \<and> NaN \<notin> set s) \<and>
      (\<forall>c\<in>set rolling_columns. \<exists>s0 s. getcol mid c = Inr s0 \<and> getcol out c = Inr s \<and>
         ((\<exists>x\<in>set s0. x \<noteq> NaN) \<longrightarrow> NaN \<notin> set s))"
proof -
  from engineered_features_ok [OF city weather ok] obtain mid bc omt where
    mid: "engineered_features df = Inr mid" and ok': "frame_ok n mid" and
    same: "\<forall>c. c \<notin> set derived_columns \<longrightarrow> getcol mid c = getcol df c" and
    roll: "\<forall>col\<in>set weather_cols. \<forall>w\<in>set windows. \<forall>xs. getcol df col = Inr xs \<longrightarrow>
         getcol mid (mean_name col w) = Inr (groupby_transform ks (rolling w (roll_mean 1)) xs) \<and>
         getcol mid (std_name col w) = Inr (groupby_transform ks (rolling w (roll_std 1)) xs)" and
    omt: "getcol mid ''optimal_mosquito_temp'' = Inr omt" "NaN \<notin> set omt" and
    bc: "getcol mid ''breeding_conditions'' = Inr bc" "NaN \<notin> set bc" and
    lags: "\<forall>lag\<in>set lag_days. getcol mid (lag_name lag) =
         Inr (fillna (Num 0) (groupby_transform ks (shift lag) bc))"
    by blast
  from create_weather_features_ok [OF mid same ok ok' ctx] obtain out where
    out: "create_weather_features df = Inr out" and
    cols: "\<forall>c s. getcol mid c = Inr s \<longrightarrow>
       getcol out c = Inr (select_rows (row_mask df exclude_columns)
         (if c \<in> set exclude_columns then s else bfill (ffill s)))"
    by blast
  let ?mask = "row_mask df exclude_columns"
  have clean: "\<exists>s'. getcol out c = Inr s' \<and> NaN \<notin> set s'"
    if "getcol mid c = Inr s" "NaN \<notin> set s" for c s
  proof -
    from that cols have "getcol out c = Inr (select_rows ?mask s)"
      by (simp add: repair_id)
    with that(2) set_select_rows [of ?mask s] show ?thesis by auto
  qed
  have "\<exists>s. getcol out c = Inr s \<and> NaN \<notin> set s"
    if "c \<in> set ([''optimal_mosquito_temp'', ''breeding_conditions''] @ map lag_name lag_days)" for c
  proof -
    from that consider "c = ''optimal_mosquito_temp''" | "c = ''breeding_conditions''"
      | lag where "lag \<in> set lag_days" "c = lag_name lag"
      by auto
    then show ?thesis
    proof cases
      case 1 with omt clean show ?thesis by blast
    next
      case 2 with bc clean show ?thesis by blast
    next
      case 3
      with lags have "getcol mid c = Inr (fillna (Num 0) (groupby_transform ks (shift lag) bc))"
        by blast
      then show ?thesis by (rule clean) simp
    qed
  qed
  moreover have "\<exists>s0 s. getcol mid c = Inr s0 \<and> getcol out c = Inr s \<and>
         ((\<exists>x\<in>set s0. x \<noteq> NaN) \<longrightarrow> NaN \<notin> set s)"
    if c: "c \<in> set rolling_columns" for c
  proof -
    from c obtain col w where cw: "col \<in> set weather_cols" "w \<in> set windows"
      "c = mean_name col w \<or> c = std_name col w"
      unfolding set_rolling_columns by auto
    with weather obtain xs where "getcol df col = Inr xs" by blast
    with roll cw obtain s0 where s0: "getcol mid c = Inr s0" by blast
    have "c \<notin> set exclude_columns"
      using c derived_not_source [of c] by (simp add: derived_columns_def)
    with s0 cols have o: "getcol out c = Inr (select_rows ?mask (bfill (ffill s0)))"
      by simp
    have "NaN \<notin> set (select_rows ?mask (bfill (ffill s0)))" if "\<exists>x\<in>set s0. x \<noteq> NaN"
      using repair_no_nan [OF that] set_select_rows [of ?mask "bfill (ffill s0)"] by auto
    with s0 o show ?thesis by blast
  qed
  ultimately show ?thesis using mid out by blast
qed

lemma example_frame_context: "set exclude_columns \<subseteq> set (columns example_frame)"
  by (simp add: exclude_columns_def example_frame_def columns_def)

theorem repaired_columns_populated_witness:
  "\<exists>mid out. engineered_features example_frame = Inr mid \<and>
     create_weather_features example_frame = Inr out \<and>
     (\<forall>c\<in>set ([''optimal_mosquito_temp'', ''breeding_conditions''] @ map lag_name lag_days).
        \<exists>s. getcol out c = Inr s \<and> NaN \<notin> set s) \<and>
     (\<forall>c\<in>set rolling_columns. \<exists>s0 s. getcol mid c = Inr s0 \<and> getcol out c = Inr s \<and>
        ((\<exists>x\<in>set s0. x \<noteq> NaN) \<longrightarrow> NaN \<notin> set s))"
  using repaired_columns_populated [OF example_frame_ok example_frame_context] .

lemma example_single_rows_ok:
  "getcol example_single_rows ''city'' = Inr [Str ''A'', Str ''B'']"
  "\<forall>c\<in>set weather_cols. \<exists>xs. getcol example_single_rows c = Inr xs \<and> numeric xs"
  "frame_ok 2 example_single_rows"
  by (simp_all add: example_single_rows_def getcol_def weather_cols_def numeric_def frame_ok_def)

lemma example_single_rows_context: "set exclude_columns \<subseteq> set (columns example_single_rows)"
  by (simp add: exclude_columns_def example_single_rows_def columns_def)

lemma example_single_rows_mask: "row_mask example_single_rows exclude_columns = [True, True]"
  by (simp add: row_mask_def nrows_def example_single_rows_def complete_row_def
      exclude_columns_def upt_rec)

lemma single_rows_std:
  "groupby_transform [Str ''A'', Str ''B''] (rolling 3 (roll_std 1)) [Num 30, Num 20] = [NaN, NaN]"
  by (simp add: groupby_transform_def group_keys_def transform_step_def group_indices_def
      gather_def rolling_def window_at_def roll_std_def upt_rec)

lemma result_column_getcol: "r = Inr df \<Longrightarrow> getcol df c = Inr s \<Longrightarrow> result_column r c = Some s"
  by (simp add: result_column_def getcol_map_of)

text \<open>
  C5 as stated fails: when every city has a single row, no window ever holds two
  observations, every standard-deviation column is missing in every row before the
  repair, and the fills leave it so.
\<close>

theorem unfilled_std_column_counterexample:
  "result_column (create_weather_features example_single_rows) ''temperature_2m_max_3d_std'' =
     Some [NaN, NaN]"
proof -
  have xs: "getcol example_single_rows ''temperature_2m_max'' = Inr [Num 30, Num 20]"
    by (simp add: example_single_rows_def getcol_def)
  from engineered_features_ok [OF example_single_rows_ok] xs obtain mid where
    mid: "engineered_features example_single_rows = Inr mid" and ok': "frame_ok 2 mid" and
    same: "\<forall>c. c \<notin> set derived_columns \<longrightarrow> getcol mid c = getcol example_single_rows c" and
    ss: "getcol mid (std_name ''temperature_2m_max'' 3) =
      Inr (groupby_transform [Str ''A'', Str ''B''] (rolling 3 (roll_std 1)) [Num 30, Num 20])"
    unfolding weather_cols_def windows_def by fastforce
  from create_weather_features_ok [OF mid same example_single_rows_ok(3) ok'
      example_single_rows_context] obtain out where
    out: "create_weather_features example_single_rows = Inr out" and
    cols: "\<forall>c s. getcol mid c = Inr s \<longrightarrow>
       getcol out c = Inr (select_rows (row_mask example_single_rows exclude_columns)
         (if c \<in> set exclude_columns then s else bfill (ffill s)))"
    by blast
  have name: "std_name ''temperature_2m_max'' 3 = ''temperature_2m_max_3d_std''"
    by (simp add: std_name_def str_nat_3)
  have "getcol out ''temperature_2m_max_3d_std'' = Inr [NaN, NaN]"
    using cols ss unfolding name single_rows_std example_single_rows_mask
    by (simp add: exclude_columns_def select_rows_def bfill_def ffill_def)
  with out show ?thesis by (rule result_column_getcol)
qed

text \<open>
  C10. The repair fills every column that is not in the fixed context set, the target
  column included: such a column of the result is the forward-then-backward fill of the
  column, taken over the whole dataset in row order whatever the city, restricted to the
  rows that are kept; a context column is only restricted to the kept rows. A missing
  cell takes the nearest observed value at or before its row, else the nearest observed
  value after it; it is neither left missing (while the column has any value) nor set
  to zero.
\<close>

theorem repair_fills_non_context_columns:
  assumes city: "getcol df ''city'' = Inr ks"
    and weather: "\<forall>c\<in>set weather_cols. \<exists>xs. getcol df c = Inr xs \<and> numeric xs"
    and ok: "frame_ok n df"
    and ctx: "set exclude_columns \<subseteq> set (columns df)"
  shows "\<exists>mid out. engineered_features df = Inr mid \<and> create_weather_features df = Inr out \<and>
      (\<forall>c. c \<notin> set derived_columns \<longrightarrow> getcol mid c = getcol df c) \<and>
      (\<forall>c s. getcol mid c = Inr s \<longrightarrow>
         getcol out c = Inr (select_rows (row_mask df exclude_columns)
           (if c \<in> set exclude_columns then s else bfill (ffill s)))) \<and>
      (\<forall>s i. i < length s \<longrightarrow>
         bfill (ffill s) ! i =
           (if filter (\<lambda>c. c \<noteq> NaN) (take (Suc i) s) \<noteq> []
            then last (filter (\<lambda>c. c \<noteq> NaN) (take (Suc i) s))
            else if filter (\<lambda>c. c \<noteq> NaN) (drop (Suc i) s) \<noteq> []
            then hd (filter (\<lambda>c. c \<noteq> NaN) (drop (Suc i) s))
            else NaN))"
proof -
  from engineered_features_ok [OF city weather ok] obtain mid where
    mid: "engineered_features df = Inr mid" and ok': "frame_ok n mid" and
    same: "\<forall>c. c \<notin> set derived_columns \<longrightarrow> getcol mid c = getcol df c"
    by blast
  from create_weather_features_ok [OF mid same ok ok' ctx] obtain out where
    "create_weather_features df = Inr out"
    "\<forall>c s. getcol mid c = Inr s \<longrightarrow>
       getcol out c = Inr (select_rows (row_mask df exclude_columns)
         (if c \<in> set exclude_columns then s else bfill (ffill s)))"
    by blast
  with mid same repair_nth show ?thesis by blast
qed

lemma example_frame_mask: "row_mask example_frame exclude_columns = [True, True, True, True, True]"
  by (simp add: row_mask_def nrows_def example_frame_def complete_row_def
      exclude_columns_def upt_rec)

theorem repair_fills_non_context_columns_witness:
  "result_column (create_weather_features example_frame) ''arbovirus_bool'' =
     Some [Num 1, Num 1, Num 0, Num 0, Num 1]"
proof -
  have t: "getcol example_frame ''arbovirus_bool'' = Inr [Num 1, NaN, Num 0, NaN, Num 1]"
    by (simp add: example_frame_def getcol_def)
  have d: "''arbovirus_bool'' \<notin> set derived_columns"
    by (simp add: derived_columns_eq rolling_columns_eq)
  from repair_fills_non_context_columns [OF example_frame_ok example_frame_context]
  obtain mid out where
    out: "create_weather_features example_frame = Inr out" and
    same: "\<forall>c. c \<notin> set derived_columns \<longrightarrow> getcol mid c = getcol example_frame c" and
    cols: "\<forall>c s. getcol mid c = Inr s \<longrightarrow>
         getcol out c = Inr (select_rows (row_mask example_frame exclude_columns)
           (if c \<in> set exclude_columns then s else bfill (ffill s)))"
    by blast
  from same d t have "getcol mid ''arbovirus_bool'' = Inr [Num 1, NaN, Num 0, NaN, Num 1]"
    by simp
  with cols have "getcol out ''arbovirus_bool'' = Inr [Num 1, Num 1, Num 0, Num 0, Num 1]"
    unfolding example_frame_mask
    by (simp add: exclude_columns_def select_rows_def bfill_def ffill_def)
  with out show ?thesis by (rule result_column_getcol)
qed

section \<open>A missing weather column\<close>

lemma product_append: "List.product (xs @ ys) zs = List.product xs zs @ List.product ys zs"
  by (induction xs) auto

lemma getcol_missing:
  assumes "c \<notin> set (columns df)"
  shows "getcol df c = Inl (KeyError [c])"
proof -
  have "map_of df c = None"
    using assms by (simp add: map_of_eq_None_iff columns_def)
  then show ?thesis by (simp add: getcol_def)
qed

lemma rolling_first_missing:
  assumes city: "getcol df ''city'' = Inr ks"
    and ok: "frame_ok n df"
    and split: "weather_cols = pre @ c0 # post"
    and pre: "\<forall>c\<in>set pre. \<exists>xs. getcol df c = Inr xs \<and> numeric xs"
    and miss: "c0 \<notin> set (columns df)"
  shows "rolling_window_statistics df = Inl (KeyError [c0])"
proof -
  let ?ps = "List.product pre windows"
  let ?names = "\<lambda>ps. concat (map (\<lambda>p. [mean_name (fst p) (snd p), std_name (fst p) (snd p)]) ps)"
  have sub: "set (?names ?ps) \<subseteq> set rolling_columns"
    unfolding rolling_columns_def split product_append by auto
  have rd: "set rolling_columns \<subseteq> set derived_columns"
    by (auto simp: derived_columns_def)
  have a: "\<forall>p\<in>set ?ps. \<exists>xs. getcol df (fst p) = Inr xs \<and> numeric xs"
    using pre by auto
  have b: "\<forall>p\<in>set ?ps. \<forall>q\<in>set ?ps.
      mean_name (fst p) (snd p) \<noteq> fst q \<and> std_name (fst p) (snd p) \<noteq> fst q"
  proof (intro ballI)
    fix p q assume p: "p \<in> set ?ps" and q: "q \<in> set ?ps"
    from p have "mean_name (fst p) (snd p) \<in> set (?names ?ps)"
      "std_name (fst p) (snd p) \<in> set (?names ?ps)" by force+
    with sub rd have "mean_name (fst p) (snd p) \<in> set derived_columns"
      "std_name (fst p) (snd p) \<in> set derived_columns"
      by blast+
    moreover from q have "fst q \<in> set weather_cols" by (auto simp: split)
    ultimately show "mean_name (fst p) (snd p) \<noteq> fst q \<and> std_name (fst p) (snd p) \<noteq> fst q"
      using derived_not_source by metis
  qed
  have "distinct (?names (List.product weather_cols windows))"
    using distinct_derived_columns by (simp add: derived_columns_def rolling_columns_def)
  then have c: "distinct (?names ?ps)"
    unfolding split product_append by simp
  from rolling_loop [OF city a b c ok] obtain out where
    out: "for_each (\<lambda>p. add_rolling (fst p) (snd p)) ?ps df = Inr out" and
    other: "\<forall>c. c \<notin> (\<lambda>p. mean_name (fst p) (snd p)) ` set ?ps \<longrightarrow>
         c \<notin> (\<lambda>p. std_name (fst p) (snd p)) ` set ?ps \<longrightarrow> getcol out c = getcol df c"
    by blast
  have keep: "getcol out c = getcol df c" if "c \<notin> set derived_columns" for c
  proof -
    from that sub rd have "c \<notin> set (?names ?ps)" by blast
    then have "c \<notin> (\<lambda>p. mean_name (fst p) (snd p)) ` set ?ps"
      "c \<notin> (\<lambda>p. std_name (fst p) (snd p)) ` set ?ps" by force+
    with other show ?thesis by blast
  qed
  have "''city'' \<notin> set derived_columns"
    by (simp add: derived_columns_eq rolling_columns_eq)
  then have c1: "getcol out ''city'' = Inr ks" using keep city by simp
  have "c0 \<in> set weather_cols" by (simp add: split)
  then have "c0 \<notin> set derived_columns" using derived_not_source by blast
  moreover have "getcol df c0 = Inl (KeyError [c0])"
    using miss by (rule getcol_missing)
  ultimately have c2: "getcol out c0 = Inl (KeyError [c0])" using keep by simp
  have "add_rolling c0 3 out = Inl (KeyError [c0])"
    using c1 c2 by (simp add: add_rolling_def grouped_rolling_def)
  then have "for_each (add_rolling c0) windows out = Inl (KeyError [c0])"
    by (simp add: windows_def)
  moreover have "for_each (\<lambda>col. for_each (add_rolling col) windows) pre df = Inr out"
    using out by (simp add: for_each_nested)
  ultimately show ?thesis
    by (simp add: rolling_window_statistics_def split for_each_append)
qed

text \<open>
  C2 (amended). The weather feature builder has no check for the presence of a weather
  column: when the city column is present and some expected weather column is absent
  (the present ones being numeric), it computes no feature and raises KeyError for the
  first absent column, in the order temperature\_2m\_max, temperature\_2m\_min,
  precipitation\_sum, wind\_speed\_10m\_max.
\<close>

theorem missing_weather_column_raises:
  assumes city: "getcol df ''city'' = Inr ks"
    and ok: "frame_ok n df"
    and numeric: "\<forall>c\<in>set weather_cols. \<forall>xs. getcol df c = Inr xs \<longrightarrow> numeric xs"
    and missing: "filter (\<lambda>c. c \<notin> set (columns df)) weather_cols = c0 # rest"
  shows "create_weather_features df = Inl (KeyError [c0])"
proof -
  from missing obtain pre post where
    split: "weather_cols = pre @ c0 # post" and
    pre: "\<forall>u\<in>set pre. \<not> u \<notin> set (columns df)" and c0: "c0 \<notin> set (columns df)"
    unfolding filter_eq_Cons_iff by blast
  have "\<forall>c\<in>set pre. \<exists>xs. getcol df c = Inr xs \<and> numeric xs"
  proof
    fix c assume c: "c \<in> set pre"
    with pre obtain xs where "getcol df c = Inr xs" using columns_getcol by blast
    moreover from c have "c \<in> set weather_cols" by (simp add: split)
    ultimately show "\<exists>xs. getcol df c = Inr xs \<and> numeric xs" using numeric by blast
  qed
  from rolling_first_missing [OF city ok split this c0] show ?thesis
    by (simp add: create_weather_features_def engineered_features_def)
qed

theorem missing_weather_column_raises_witness:
  "create_weather_features [(''city'', [Str ''A''])] = Inl (KeyError [''temperature_2m_max''])"
  using missing_weather_column_raises [of "[(''city'', [Str ''A''])]" "[Str ''A'']" 1
      "''temperature_2m_max''"
      "[''temperature_2m_min'', ''precipitation_sum'', ''wind_speed_10m_max'']"]
  by (simp add: getcol_def frame_ok_def weather_cols_def columns_def)

text \<open>
  C2 as stated fails: without the column \<open>wind_speed_10m_max\<close> the builder does not
  succeed with the features of the present columns; it raises KeyError.
\<close>

theorem missing_wind_column_counterexample:
  "create_weather_features example_no_wind = Inl (KeyError [''wind_speed_10m_max''])"
proof -
  have "rolling_window_statistics example_no_wind = Inl (KeyError [''wind_speed_10m_max''])"
  proof (rule rolling_first_missing)
    show "getcol example_no_wind ''city'' = Inr [Str ''A'', Str ''B'']"
      by (simp add: example_no_wind_def getcol_def)
    show "frame_ok 2 example_no_wind"
      by (simp add: example_no_wind_def frame_ok_def)
    show "weather_cols = [''temperature_2m_max'', ''temperature_2m_min'', ''precipitation_sum'']
        @ ''wind_speed_10m_max'' # []"
      by (simp add: weather_cols_def)
    show "\<forall>c\<in>set [''temperature_2m_max'', ''temperature_2m_min'', ''precipitation_sum''].
        \<exists>xs. getcol example_no_wind c = Inr xs \<and> numeric xs"
      by (simp add: example_no_wind_def getcol_def numeric_def)
    show "''wind_speed_10m_max'' \<notin> set (columns example_no_wind)"
      by (simp add: example_no_wind_def columns_def)
  qed
  then show ?thesis
    by (simp add: create_weather_features_def engineered_features_def)
qed

section \<open>Aggregation\<close>










section \<open>Regressors in the future frame\<close>

lemma nrows_setcol_replicate [simp]:
  "nrows (setcol fut r (replicate (nrows fut) v)) = nrows fut"
  by (cases fut) (auto simp: nrows_def)

lemma carry_forward_ok:
  assumes "getcol pdf r = Inr s" and "s \<noteq> []"
  shows "carry_forward pdf r fut = Inr (setcol fut r (replicate (nrows fut) (last s)))"
proof -
  from assms(1) have "r \<in> set (columns pdf)" using columns_getcol by blast
  with assms show ?thesis by (simp add: carry_forward_def iloc_last_def)
qed

lemma carry_forward_skip: "r \<notin> set (columns pdf) \<Longrightarrow> carry_forward pdf r fut = Inr fut"
  by (simp add: carry_forward_def)

lemma carry_forward_loop:
  assumes "\<forall>r\<in>set rs. \<forall>s. getcol pdf r = Inr s \<longrightarrow> s \<noteq> []"
  shows "\<exists>fut'. for_each (carry_forward pdf) rs fut = Inr fut' \<and> nrows fut' = nrows fut \<and>
    (\<forall>r\<in>set rs. \<forall>s. getcol pdf r = Inr s \<longrightarrow>
       getcol fut' r = Inr (replicate (nrows fut) (last s))) \<and>
    (\<forall>c. c \<notin> set rs \<longrightarrow> getcol fut' c = getcol fut c)"
  using assms
proof (induction rs arbitrary: fut)
  case Nil
  then show ?case by simp
next
  case (Cons r rs)
  show ?case
  proof (cases "r \<in> set (columns pdf)")
    case False
    then have none: "\<And>s. getcol pdf r \<noteq> Inr s" using columns_getcol by blast
    from Cons.IH [of fut] Cons.prems obtain fut' where
      "for_each (carry_forward pdf) rs fut = Inr fut'" "nrows fut' = nrows fut"
      "\<forall>r\<in>set rs. \<forall>s. getcol pdf r = Inr s \<longrightarrow> getcol fut' r = Inr (replicate (nrows fut) (last s))"
      "\<forall>c. c \<notin> set rs \<longrightarrow> getcol fut' c = getcol fut c"
      by auto
    with False none show ?thesis by (auto simp: carry_forward_skip)
  next
    case True
    then obtain s where s: "getcol pdf r = Inr s" using columns_getcol by blast
    with Cons.prems have ne: "s \<noteq> []" by simp
    let ?f1 = "setcol fut r (replicate (nrows fut) (last s))"
    from Cons.IH [of ?f1] Cons.prems obtain fut' where
      f: "for_each (carry_forward pdf) rs ?f1 = Inr fut'" "nrows fut' = nrows ?f1"
      "\<forall>r\<in>set rs. \<forall>s. getcol pdf r = Inr s \<longrightarrow> getcol fut' r = Inr (replicate (nrows ?f1) (last s))"
      "\<forall>c. c \<notin> set rs \<longrightarrow> getcol fut' c = getcol ?f1 c"
      by auto
    have "for_each (carry_forward pdf) (r # rs) fut = Inr fut'"
      using f(1) by (simp add: carry_forward_ok [OF s ne])
    moreover have "nrows fut' = nrows fut" using f(2) by simp
    moreover have "getcol fut' r' = Inr (replicate (nrows fut) (last s'))"
      if "r' \<in> set (r # rs)" "getcol pdf r' = Inr s'" for r' s'
    proof (cases "r' \<in> set rs")
      case True
      with f(3) that(2) show ?thesis by simp
    next
      case False
      with that have "r' = r" by simp
      with False f(4) s that(2) show ?thesis by simp
    qed
    moreover have "getcol fut' c = getcol fut c" if "c \<notin> set (r # rs)" for c
      using that f(4) by simp
    ultimately show ?thesis by blast
  qed
qed

text \<open>
  C8. For every city and every registered regressor column (a regressor of the list that
  is a column of the city's series), the frame supplied to the model for prediction
  holds, in every row of the regressor's column and so in the whole future range, the
  city's last historical value of the regressor.
\<close>

theorem regressors_carried_forward:
  assumes ok: "frame_ok n prophet_df" "0 < n"
    and rs: "rs = (case regressors of None \<Rightarrow> default_regressors | Some l \<Rightarrow> l)"
    and fit: "fit eng (filter (\<lambda>r. r \<in> set (columns prophet_df)) rs) prophet_df = Inr model"
  shows "\<exists>future. for_each (carry_forward prophet_df) rs
        (make_future_dataframe eng model forecast_periods) = Inr future \<and>
      train_prophet_model eng prophet_df forecast_periods add_regressors regressors =
        (case predict eng model future of Inl e \<Rightarrow> Inl e | Inr forecast \<Rightarrow> Inr (model, forecast)) \<and>
      nrows future = nrows (make_future_dataframe eng model forecast_periods) \<and>
      (\<forall>r\<in>set rs. \<forall>hist. getcol prophet_df r = Inr hist \<longrightarrow>
         getcol future r =
           Inr (replicate (nrows (make_future_dataframe eng model forecast_periods)) (last hist)))"
proof -
  have "\<forall>r\<in>set rs. \<forall>s. getcol prophet_df r = Inr s \<longrightarrow> s \<noteq> []"
    using ok frame_ok_getcol by fastforce
  from carry_forward_loop [OF this, of "make_future_dataframe eng model forecast_periods"]
  obtain future where
    f: "for_each (carry_forward prophet_df) rs
          (make_future_dataframe eng model forecast_periods) = Inr future"
      "nrows future = nrows (make_future_dataframe eng model forecast_periods)"
      "\<forall>r\<in>set rs. \<forall>s. getcol prophet_df r = Inr s \<longrightarrow>
         getcol future r =
           Inr (replicate (nrows (make_future_dataframe eng model forecast_periods)) (last s))"
    by blast
  have "train_prophet_model eng prophet_df forecast_periods add_regressors regressors =
      (case predict eng model future of Inl e \<Rightarrow> Inl e | Inr forecast \<Rightarrow> Inr (model, forecast))"
    using fit f(1) unfolding train_prophet_model_def rs [symmetric] by (simp add: Let_def)
  with f show ?thesis by blast
qed

theorem regressors_carried_forward_witness:
  "\<exists>future. for_each (carry_forward
        [(''ds'', [Ts (2024, 2, 28), Ts (2024, 2, 29)]), (''y'', [Num 2, Num 0]),
         (''temperature_2m_max'', [Num 30, Num 31])]) default_regressors
        (make_future_dataframe naive_engine
          [(''ds'', [Ts (2024, 2, 28), Ts (2024, 2, 29)]), (''y'', [Num 2, Num 0]),
           (''temperature_2m_max'', [Num 30, Num 31])] 2) = Inr future \<and>
     getcol future ''temperature_2m_max'' = Inr [Num 31, Num 31, Num 31, Num 31]"
proof -
  let ?h = "[(''ds'', [Ts (2024, 2, 28), Ts (2024, 2, 29)]), (''y'', [Num 2, Num 0]),
         (''temperature_2m_max'', [Num 30, Num 31])]"
  have h: "frame_ok 2 ?h" "(0::nat) < 2"
    "default_regressors = (case None of None \<Rightarrow> default_regressors | Some l \<Rightarrow> l)"
    "fit naive_engine (filter (\<lambda>r. r \<in> set (columns ?h)) default_regressors) ?h = Inr ?h"
    by (simp_all add: frame_ok_def naive_engine_def naive_fit_def getcol_def)
  have n: "nrows (make_future_dataframe naive_engine ?h 2) = 4"
    by (simp add: naive_engine_def naive_future_def nrows_def numeral_2_eq_2)
  obtain future where big:
    "for_each (carry_forward ?h) default_regressors (make_future_dataframe naive_engine ?h 2) =
        Inr future \<and>
      train_prophet_model naive_engine ?h 2 True None =
        (case predict naive_engine ?h future of Inl e \<Rightarrow> Inl e | Inr forecast \<Rightarrow> Inr (?h, forecast)) \<and>
      nrows future = nrows (make_future_dataframe naive_engine ?h 2) \<and>
      (\<forall>r\<in>set default_regressors. \<forall>hist. getcol ?h r = Inr hist \<longrightarrow>
         getcol future r =
           Inr (replicate (nrows (make_future_dataframe naive_engine ?h 2)) (last hist)))"
    using regressors_carried_forward [OF h, of 2 True] by (elim exE) (erule that)
  then have "\<forall>r\<in>set default_regressors. \<forall>hist. getcol ?h r = Inr hist \<longrightarrow>
         getcol future r = Inr (replicate 4 (last hist))"
    unfolding n by (elim conjE)
  then have "getcol future ''temperature_2m_max'' = Inr (replicate 4 (Num 31))"
    by (simp add: default_regressors_def getcol_def)
  with big show ?thesis by (simp add: numeral_eq_Suc)
qed

end
